theory Spec2Isabelle
  imports Main "HOL-Library.Word"
begin

unbundle bit_operations_syntax

section \<open>File monitor of the host-based intrusion detection system\<close>

text \<open>
  A shallow embedding of \<^verbatim>\<open>file_monitor.py\<close>: the two history tables of
  \<^verbatim>\<open>database.py\<close> that the module writes, the fingerprint, the baseline scan, the
  four watchdog handlers and the start-up sequence. The module's globals (\<^verbatim>\<open>conn\<close>,
  \<^verbatim>\<open>cursor\<close>, the class attribute \<^verbatim>\<open>processed_files\<close>) are passed explicitly;
  everything the code reads from the operating system is a field of the record
  \<open>world\<close>.
\<close>

subsection \<open>Python values and exceptions\<close>

datatype py_error = FileNotFoundError | PermissionError | OSError

text \<open>The objects a function of the module can return to its caller.\<close>

datatype py_value =
    PyNone
  | PyInt int
  | PyStr string
  | PyList "py_value list"
  | PyDict "(string \<times> py_value) list"

fun is_number :: "py_value \<Rightarrow> bool" where
  "is_number (PyInt n) = True"
| "is_number v = False"

fun py_len :: "py_value \<Rightarrow> nat option" where
  "py_len (PyList xs) = Some (length xs)"
| "py_len (PyDict kvs) = Some (length kvs)"
| "py_len (PyStr s) = Some (length s)"
| "py_len v = None"

text \<open>Truth value of \<^verbatim>\<open>if checksum:\<close>, where \<^verbatim>\<open>checksum\<close> is a string or None.\<close>

fun truthy :: "string option \<Rightarrow> bool" where
  "truthy None = False"
| "truthy (Some s) = (s \<noteq> [])"

subsection \<open>The tables Files and Events\<close>

text \<open>
  Columns as \<^verbatim>\<open>database.py\<close> declares them: \<^verbatim>\<open>filename\<close>, \<^verbatim>\<open>file_path\<close> and
  \<^verbatim>\<open>event_type\<close> are \<^verbatim>\<open>TEXT NOT NULL\<close>, every other column is nullable (\<open>None\<close> is
  the SQL null). A table is the list of its rows in rowid order. Foreign keys are not
  enforced (the connection never enables them).
\<close>

record file_row =
  file_id :: nat
  filename :: string
  file_path :: string
  creation_time :: "string option"
  modification_time :: "string option"
  deletion_time :: "string option"
  hash_value :: "string option"
  user :: "string option"
  role :: "string option"

record event_row =
  event_id :: nat
  event_type :: string
  event_time :: "string option"
  event_file_id :: "nat option"

text \<open>
  \<^verbatim>\<open>conn\<close> and \<^verbatim>\<open>cursor\<close>: the committed tables, \<^verbatim>\<open>cursor.lastrowid\<close> and the
  connection's \<^verbatim>\<open>sqlite3_last_insert_rowid\<close>. A new cursor has \<^verbatim>\<open>lastrowid\<close> None and a
  new connection has last insert rowid 0. Every statement that \<^verbatim>\<open>cursor.execute\<close>
  runs without raising sets \<^verbatim>\<open>cursor.lastrowid\<close> to the connection's last insert
  rowid; an INSERT that executes sets the latter to the new row's id, and neither value
  is taken back by a rollback.
\<close>

record store =
  Files :: "file_row list"
  Events :: "event_row list"
  lastrowid :: "nat option"
  last_insert_rowid :: nat

text \<open>\<^verbatim>\<open>INTEGER PRIMARY KEY AUTOINCREMENT\<close> on a table whose rows are never deleted:
  one more than the largest id in use.\<close>

definition new_rowid :: "nat list \<Rightarrow> nat" where
  "new_rowid ids = Suc (fold max ids 0)"

text \<open>
  What happens inside the \<^verbatim>\<open>try\<close> of \<^verbatim>\<open>insert_file\<close> and \<^verbatim>\<open>insert_event\<close>:
  \<^verbatim>\<open>cursor.execute\<close> and \<^verbatim>\<open>conn.commit\<close> both go through, or the commit raises
  after the statement has executed, or \<^verbatim>\<open>cursor.execute\<close> itself raises. In the last
  two cases the \<^verbatim>\<open>except\<close> clause prints and rolls back.
\<close>

datatype insert_outcome = Committed | CommitFailed | ExecuteFailed

text \<open>\<^verbatim>\<open>insert_file\<close>\<close>

definition insert_file ::
  "insert_outcome \<Rightarrow> store \<Rightarrow> string \<Rightarrow> string \<Rightarrow> string option \<Rightarrow> string option \<Rightarrow> string option
    \<Rightarrow> string option \<Rightarrow> string option \<Rightarrow> string option \<Rightarrow> store" where
  "insert_file outcome s fname filepath creation_t modification_t deletion_t checksum usr rl =
     (let i = new_rowid (map file_id (Files s)) in
      case outcome of
        Committed \<Rightarrow>
          s\<lparr>Files := Files s @
               [\<lparr>file_id = i, filename = fname, file_path = filepath,
                 creation_time = creation_t, modification_time = modification_t,
                 deletion_time = deletion_t, hash_value = checksum,
                 user = usr, role = rl\<rparr>],
            lastrowid := Some i, last_insert_rowid := i\<rparr>
      | CommitFailed \<Rightarrow> s\<lparr>lastrowid := Some i, last_insert_rowid := i\<rparr>
      | ExecuteFailed \<Rightarrow> s)"

text \<open>\<^verbatim>\<open>insert_event\<close>\<close>

definition insert_event ::
  "insert_outcome \<Rightarrow> store \<Rightarrow> string \<Rightarrow> string \<Rightarrow> nat option \<Rightarrow> store" where
  "insert_event outcome s etype etime fid =
     (let i = new_rowid (map event_id (Events s)) in
      case outcome of
        Committed \<Rightarrow>
          s\<lparr>Events := Events s @
               [\<lparr>event_id = i, event_type = etype, event_time = Some etime,
                 event_file_id = fid\<rparr>],
            lastrowid := Some i, last_insert_rowid := i\<rparr>
      | CommitFailed \<Rightarrow> s\<lparr>lastrowid := Some i, last_insert_rowid := i\<rparr>
      | ExecuteFailed \<Rightarrow> s)"

text \<open>
  The three statements every writer of the module repeats:
  \<^verbatim>\<open>insert_file(...); file_id = cursor.lastrowid; insert_event(..., file_id)\<close>.
\<close>

definition insert_file_and_event ::
  "insert_outcome \<Rightarrow> insert_outcome \<Rightarrow> store \<Rightarrow> string \<Rightarrow> string \<Rightarrow> string option \<Rightarrow> string option
    \<Rightarrow> string option \<Rightarrow> string option \<Rightarrow> string option \<Rightarrow> string option
    \<Rightarrow> string \<Rightarrow> string \<Rightarrow> store" where
  "insert_file_and_event file_outcome event_outcome s fname filepath creation_t modification_t
       deletion_t checksum usr rl etype etime =
     (let s1 = insert_file file_outcome s fname filepath creation_t modification_t deletion_t
                 checksum usr rl;
          fid = lastrowid s1
      in insert_event event_outcome s1 etype etime fid)"

text \<open>
  \<^verbatim>\<open>cursor.execute("SELECT * FROM Files WHERE ... = ?"); cursor.fetchone()\<close>.
  Executing the statement changes no table but, like every executed statement, it
  refreshes \<^verbatim>\<open>cursor.lastrowid\<close>. The statement has no ORDER BY and the table no
  index on the column, so SQLite scans the table in rowid order and \<^verbatim>\<open>fetchone\<close>
  returns the first row that matches.
\<close>

definition execute_select :: "store \<Rightarrow> store" where
  "execute_select s = s\<lparr>lastrowid := Some (last_insert_rowid s)\<rparr>"

definition fetchone_by_path :: "store \<Rightarrow> string \<Rightarrow> file_row option" where
  "fetchone_by_path s p = find (\<lambda>r. file_path r = p) (Files s)"

definition fetchone_by_filename :: "store \<Rightarrow> string \<Rightarrow> file_row option" where
  "fetchone_by_filename s n = find (\<lambda>r. filename r = n) (Files s)"

subsection \<open>The operating system\<close>

type_synonym byte = "8 word"

text \<open>
  What the module reads from its environment. Time stamps are the strings that
  \<^verbatim>\<open>strftime('%Y-%m-%d %H:%M:%S')\<close> produces; \<open>read_file\<close> is \<^verbatim>\<open>open(p, 'rb')\<close>
  followed by the reads, either the bytes of the file or the exception raised;
  \<open>walk\<close> is \<^verbatim>\<open>os.walk\<close>; the last two fields give the outcome of the INSERT
  into Files and into Events for the file at a path.
\<close>

record world =
  is_admin :: bool
  getuser :: string
  now :: string
  getctime :: "string \<Rightarrow> py_error + string"
  getmtime :: "string \<Rightarrow> py_error + string"
  read_file :: "string \<Rightarrow> py_error + byte list"
  walk :: "string \<Rightarrow> (string \<times> string list \<times> string list) list"
  files_insert :: "string \<Rightarrow> insert_outcome"
  events_insert :: "string \<Rightarrow> insert_outcome"

text \<open>The store accepts the insert: the statement executes and the commit goes through.\<close>

definition files_insert_ok :: "world \<Rightarrow> string \<Rightarrow> bool" where
  "files_insert_ok w p = (files_insert w p = Committed)"

definition events_insert_ok :: "world \<Rightarrow> string \<Rightarrow> bool" where
  "events_insert_ok w p = (events_insert w p = Committed)"

definition role_of :: "world \<Rightarrow> string" where
  "role_of w = (if is_admin w then ''Admin'' else ''Standard User'')"

text \<open>\<^verbatim>\<open>os.path.basename\<close> and \<^verbatim>\<open>os.path.join\<close> of two components, for paths
  without a drive-relative part; both separators of \<^verbatim>\<open>ntpath\<close> are accepted.\<close>

definition is_sep :: "char \<Rightarrow> bool" where
  "is_sep c = (c = CHR ''/'' \<or> c = CHR 0x5C)"

definition basename :: "string \<Rightarrow> string" where
  "basename p = rev (takeWhile (\<lambda>c. \<not> is_sep c) (rev p))"

definition path_join :: "string \<Rightarrow> string \<Rightarrow> string" where
  "path_join root file =
     (if root = [] \<or> is_sep (last root) then root @ file else root @ [CHR 0x5C] @ file)"

subsection \<open>Fingerprint\<close>

text \<open>\<^verbatim>\<open>zlib.crc32(data, value)\<close>: the reflected CRC-32 with polynomial EDB88320,
  continued from the running value.\<close>

definition crc_shift :: "32 word \<Rightarrow> 32 word" where
  "crc_shift c = (if bit c 0 then drop_bit 1 c XOR 0xEDB88320 else drop_bit 1 c)"

definition crc_byte :: "byte \<Rightarrow> 32 word \<Rightarrow> 32 word" where
  "crc_byte b c = (crc_shift ^^ 8) (c XOR ucast b)"

definition zlib_crc32 :: "byte list \<Rightarrow> 32 word \<Rightarrow> 32 word" where
  "zlib_crc32 data v = NOT (fold crc_byte data (NOT v))"

text \<open>\<^verbatim>\<open>while chunk := file.read(8192): checksum = zlib.crc32(chunk, checksum)\<close>\<close>

function read_loop :: "byte list \<Rightarrow> 32 word \<Rightarrow> 32 word" where
  "read_loop data checksum =
     (let chunk = take 8192 data in
      if chunk = [] then checksum
      else read_loop (drop 8192 data) (zlib_crc32 chunk checksum))"
  by pat_completeness auto
termination
  by (relation "measure (\<lambda>(data, checksum). length data)") auto

declare read_loop.simps [simp del]

text \<open>\<^verbatim>\<open>format(x, '08x')\<close> for a value below \<open>2 ^ 32\<close>.\<close>

definition hex_digit :: "32 word \<Rightarrow> char" where
  "hex_digit d = ''0123456789abcdef'' ! unat d"

definition format_08x :: "32 word \<Rightarrow> string" where
  "format_08x x = map (\<lambda>i. hex_digit (drop_bit (4 * i) x AND 15)) [7, 6, 5, 4, 3, 2, 1, 0]"

text \<open>\<^verbatim>\<open>calculate_crc32_checksum\<close>: \<open>Inr None\<close> is the returned None, \<open>Inl\<close> an
  exception the function does not catch.\<close>

definition calculate_crc32_checksum :: "world \<Rightarrow> string \<Rightarrow> py_error + string option" where
  "calculate_crc32_checksum w filepath =
     (case read_file w filepath of
        Inl e \<Rightarrow> (if e = FileNotFoundError \<or> e = PermissionError then Inr None else Inl e)
      | Inr data \<Rightarrow> Inr (Some (format_08x (read_loop data 0 AND 0xFFFFFFFF))))"

subsection \<open>Baseline scan\<close>

text \<open>The files the three nested loops of \<^verbatim>\<open>scan_directory\<close> visit, in order:
  every \<open>file\<close> of every \<open>(root, _, files)\<close> of \<^verbatim>\<open>os.walk(directory)\<close>.\<close>

definition scan_targets :: "world \<Rightarrow> string list \<Rightarrow> (string \<times> string) list" where
  "scan_targets w directories =
     concat (map (\<lambda>directory.
       concat (map (\<lambda>(root, dirs, files). map (\<lambda>file. (root, file)) files)
                   (walk w directory))) directories)"

fun py_str_opt :: "string option \<Rightarrow> py_value" where
  "py_str_opt None = PyNone"
| "py_str_opt (Some s) = PyStr s"

text \<open>
  The loop body, on the store and the list \<^verbatim>\<open>file_details\<close>. An exception raised in
  the body leaves the loops for the \<^verbatim>\<open>except Exception\<close> clause, which prints and
  falls through to the \<^verbatim>\<open>return\<close>: the scan ends with what it has so far.
\<close>

fun scan_files ::
  "world \<Rightarrow> (string \<times> string) list \<Rightarrow> store \<times> py_value list \<Rightarrow> store \<times> py_value list" where
  "scan_files w [] acc = acc"
| "scan_files w ((root, file) # rest) (s, file_details) =
     (let rl = role_of w;
          filepath = path_join root file
      in case getctime w filepath of
           Inl e \<Rightarrow> (s, file_details)
         | Inr creation_t \<Rightarrow>
             (case getmtime w filepath of
                Inl e \<Rightarrow> (s, file_details)
              | Inr modified_t \<Rightarrow>
                  (case calculate_crc32_checksum w filepath of
                     Inl e \<Rightarrow> (s, file_details)
                   | Inr checksum \<Rightarrow>
                       if truthy checksum then
                         scan_files w rest
                           (insert_file_and_event
                              (files_insert w filepath) (events_insert w filepath) s
                              file filepath (Some creation_t) (Some modified_t) (Some ''NULL'')
                              checksum (Some (getuser w)) (Some rl)
                              ''Scanned in directory'' creation_t,
                            file_details @
                              [PyDict [(''filename'', PyStr file),
                                       (''file_path'', PyStr filepath),
                                       (''creation_time'', PyStr creation_t),
                                       (''last_modified_time'', PyStr modified_t),
                                       (''checksum'', py_str_opt checksum)]])
                       else scan_files w rest (s, file_details))))"

text \<open>\<^verbatim>\<open>scan_directory\<close>: the value returned and the store it leaves.\<close>

definition scan_directory :: "world \<Rightarrow> store \<Rightarrow> string list \<Rightarrow> py_value \<times> store" where
  "scan_directory w s directories =
     (let (s', file_details) = scan_files w (scan_targets w directories) (s, [])
      in (PyList file_details, s'))"

subsection \<open>The watchdog handlers\<close>

record fs_event =
  is_directory :: bool
  src_path :: string
  dest_path :: string

text \<open>\<^verbatim>\<open>FileEventHandler\<close> with the module's connection: the store and the class
  attribute \<^verbatim>\<open>processed_files\<close>.\<close>

record watcher =
  db :: store
  processed_files :: "string set"

text \<open>A handler returns the exception it raised, if any, and the state it leaves.\<close>

definition on_created :: "world \<Rightarrow> fs_event \<Rightarrow> watcher \<Rightarrow> py_error option \<times> watcher" where
  "on_created w event st =
     (if is_directory event then (None, st)
      else
        let filepath = src_path event in
        if filepath \<in> processed_files st then (None, st)
        else
          let st1 = st\<lparr>processed_files := insert filepath (processed_files st)\<rparr>;
              rl = role_of w;
              fname = basename filepath
          in case getctime w filepath of
               Inl e \<Rightarrow> (Some e, st1)
             | Inr creation_t \<Rightarrow>
                 (case calculate_crc32_checksum w filepath of
                    Inl e \<Rightarrow> (Some e, st1)
                  | Inr checksum \<Rightarrow>
                      if truthy checksum then
                        (None, st1\<lparr>db :=
                           insert_file_and_event
                             (files_insert w filepath) (events_insert w filepath) (db st1)
                             fname filepath (Some creation_t) (Some ''NULL'') (Some ''NULL'')
                             checksum (Some (getuser w)) (Some rl)
                             ''Creation'' creation_t\<rparr>)
                      else (None, st1)))"

definition on_modified :: "world \<Rightarrow> fs_event \<Rightarrow> watcher \<Rightarrow> py_error option \<times> watcher" where
  "on_modified w event st =
     (if is_directory event then (None, st)
      else
        let filepath = src_path event in
        case calculate_crc32_checksum w filepath of
          Inl e \<Rightarrow> (Some e, st)
        | Inr checksum \<Rightarrow>
            if truthy checksum then
              (let fname = basename filepath in
               case getmtime w filepath of
                 Inl e \<Rightarrow> (Some e, st)
               | Inr modified_t \<Rightarrow>
                   (let rl = role_of w;
                        s1 = execute_select (db st)
                    in case fetchone_by_path s1 filepath of
                         Some result \<Rightarrow>
                           (None, st\<lparr>db :=
                              insert_file_and_event
                                (files_insert w filepath) (events_insert w filepath) s1
                                fname filepath (creation_time result) (Some modified_t)
                                (Some ''NULL'') checksum (Some (getuser w)) (Some rl)
                                ''Modified'' modified_t\<rparr>)
                       | None \<Rightarrow> (None, st\<lparr>db := s1\<rparr>)))
            else (None, st))"

definition on_moved :: "world \<Rightarrow> fs_event \<Rightarrow> watcher \<Rightarrow> py_error option \<times> watcher" where
  "on_moved w event st =
     (if is_directory event then (None, st)
      else
        let new_path = dest_path event in
        case calculate_crc32_checksum w new_path of
          Inl e \<Rightarrow> (Some e, st)
        | Inr checksum \<Rightarrow>
            if truthy checksum then
              (case getmtime w new_path of
                 Inl e \<Rightarrow> (Some e, st)
               | Inr modified_t \<Rightarrow>
                   (let old_name = basename (src_path event);
                        new_name = basename new_path;
                        s1 = execute_select (db st)
                    in case fetchone_by_filename s1 old_name of
                         Some result \<Rightarrow>
                           (None, st\<lparr>db :=
                              insert_file_and_event
                                (files_insert w new_path) (events_insert w new_path) s1
                                new_name new_path (creation_time result) (Some modified_t)
                                (Some ''NULL'') (hash_value result) (user result) (role result)
                                (''Renamed from '' @ old_name @ '' to '' @ new_name)
                                modified_t\<rparr>)
                       | None \<Rightarrow> (None, st\<lparr>db := s1\<rparr>)))
            else (None, st))"

definition on_deleted :: "world \<Rightarrow> fs_event \<Rightarrow> watcher \<Rightarrow> py_error option \<times> watcher" where
  "on_deleted w event st =
     (if is_directory event then (None, st)
      else
        let filepath = src_path event;
            fname = basename filepath;
            deletion_t = now w;
            s1 = execute_select (db st)
        in case fetchone_by_path s1 filepath of
             Some result \<Rightarrow>
               (None, st\<lparr>db :=
                  insert_file_and_event
                    (files_insert w filepath) (events_insert w filepath) s1
                    fname filepath (creation_time result) (modification_time result)
                    (Some deletion_t) (hash_value result) (Some (getuser w)) (role result)
                    ''Deletion'' deletion_t\<rparr>)
           | None \<Rightarrow> (None, st\<lparr>db := s1\<rparr>))"

subsection \<open>Start-up\<close>

text \<open>
  \<^verbatim>\<open>monitor_directories\<close> up to \<^verbatim>\<open>observer.start()\<close>, as the list of the states the
  function passes through: after the call of \<^verbatim>\<open>scan_directory\<close> has returned, after
  each \<^verbatim>\<open>observer.schedule\<close> and after \<^verbatim>\<open>observer.start()\<close>. A state holds the
  store, the directories scheduled so far and whether the observer thread runs; signals
  are delivered to the handler only while it runs.
\<close>

record monitor =
  mon_store :: store
  mon_watches :: "string list"
  mon_running :: bool

fun schedule_all :: "monitor \<Rightarrow> string list \<Rightarrow> monitor list" where
  "schedule_all m [] = []"
| "schedule_all m (directory # rest) =
     (let m' = m\<lparr>mon_watches := mon_watches m @ [directory]\<rparr> in m' # schedule_all m' rest)"

definition monitor_directories :: "world \<Rightarrow> store \<Rightarrow> string list \<Rightarrow> monitor list" where
  "monitor_directories w s directories =
     (let s1 = snd (scan_directory w s directories);
          m0 = \<lparr>mon_store = s1, mon_watches = [], mon_running = False\<rparr>;
          scheduled = schedule_all m0 directories;
          m1 = last (m0 # scheduled)
      in m0 # scheduled @ [m1\<lparr>mon_running := True\<rparr>])"

subsection \<open>A watched directory with one file\<close>

text \<open>The store that \<^verbatim>\<open>database.py\<close> creates, with a new cursor, and a handler that
  has seen no signal yet.\<close>

definition empty_store :: store where
  "empty_store = \<lparr>Files = [], Events = [], lastrowid = None, last_insert_rowid = 0\<rparr>"

definition new_watcher :: "store \<Rightarrow> watcher" where
  "new_watcher s = \<lparr>db = s, processed_files = {}\<rparr>"

text \<open>
  A standard user's machine on which \<^verbatim>\<open>C:/watched/\<close> holds the single file
  \<^verbatim>\<open>a.txt\<close>, given by its bytes and its modification time; \<open>usr\<close> runs the monitor
  and \<open>file_ok\<close> says whether the store accepts inserts into Files (when it does not,
  \<^verbatim>\<open>cursor.execute\<close> raises). Inserts into Events go through.
\<close>

definition one_file_world :: "byte list \<Rightarrow> string \<Rightarrow> string \<Rightarrow> bool \<Rightarrow> world" where
  "one_file_world content mtime usr file_ok =
     \<lparr>is_admin = False,
      getuser = usr,
      now = ''2024-10-05 09:00:00'',
      getctime = (\<lambda>p. Inr ''2024-10-01 12:00:00''),
      getmtime = (\<lambda>p. Inr mtime),
      read_file = (\<lambda>p. Inr content),
      walk = (\<lambda>d. if d = ''C:/watched/'' then [(''C:/watched/'', [], [''a.txt''])] else []),
      files_insert = (\<lambda>p. if file_ok then Committed else ExecuteFailed),
      events_insert = (\<lambda>p. Committed)\<rparr>"

definition signal_a :: fs_event where
  "signal_a = \<lparr>is_directory = False, src_path = ''C:/watched/a.txt'', dest_path = []\<rparr>"

definition signal_a_to_b :: fs_event where
  "signal_a_to_b =
     \<lparr>is_directory = False, src_path = ''C:/watched/a.txt'', dest_path = ''C:/watched/b.txt''\<rparr>"

text \<open>
  The same directory with three empty files, of which \<^verbatim>\<open>b.txt\<close> cannot be opened; the
  store accepts every insert.
\<close>

definition three_file_world :: world where
  "three_file_world =
     \<lparr>is_admin = False,
      getuser = ''jean'',
      now = ''2024-10-05 09:00:00'',
      getctime = (\<lambda>p. Inr ''2024-10-01 12:00:00''),
      getmtime = (\<lambda>p. Inr ''2024-10-02 12:00:00''),
      read_file = (\<lambda>p. if p = ''C:/watched/b.txt'' then Inl PermissionError else Inr []),
      walk = (\<lambda>d. if d = ''C:/watched/''
                  then [(''C:/watched/'', [], [''a.txt'', ''b.txt'', ''c.txt''])] else []),
      files_insert = (\<lambda>p. Committed),
      events_insert = (\<lambda>p. Committed)\<rparr>"

definition signal_c :: fs_event where
  "signal_c = \<lparr>is_directory = False, src_path = ''C:/watched/c.txt'', dest_path = []\<rparr>"

text \<open>The history of \<^verbatim>\<open>a.txt\<close> once the baseline scan has found it empty and a
  Modified signal has found it to hold the byte \<^verbatim>\<open>a\<close>: two rows for one path.\<close>

definition two_versions :: watcher where
  "two_versions =
     snd (on_modified (one_file_world [0x61] ''2024-10-03 12:00:00'' ''jean'' True) signal_a
       (new_watcher (snd (scan_directory
          (one_file_world [] ''2024-10-02 12:00:00'' ''jean'' True) empty_store
          [''C:/watched/'']))))"

text \<open>The store after a baseline scan that the user \<^verbatim>\<open>alice\<close> ran.\<close>

definition scanned_by_alice :: store where
  "scanned_by_alice =
     snd (scan_directory (one_file_world [] ''2024-10-02 12:00:00'' ''alice'' True) empty_store
       [''C:/watched/''])"

section \<open>Properties\<close>

subsection \<open>Auxiliary facts\<close>

lemma read_loop_Nil: "read_loop [] checksum = checksum"
  by (simp add: read_loop.simps)

lemma format_08x_zero: "format_08x 0 = ''00000000''"
  by (simp add: format_08x_def hex_digit_def)

lemma checksum_of_empty:
  "read_file w p = Inr [] \<Longrightarrow> calculate_crc32_checksum w p = Inr (Some ''00000000'')"
  by (simp add: calculate_crc32_checksum_def read_loop_Nil format_08x_zero)

text \<open>The fingerprint of the one-byte file \<^verbatim>\<open>a\<close>, as \<^verbatim>\<open>zlib\<close> computes it.\<close>

lemma checksum_of_a: "format_08x (read_loop [0x61] 0 AND 0xFFFFFFFF) = ''e8b7be43''"
  by code_simp

text \<open>The check value of the scenario in which \<^verbatim>\<open>x.txt\<close> holds \<^verbatim>\<open>abc\<close>.\<close>

lemma checksum_of_abc:
  "format_08x (read_loop [0x61, 0x62, 0x63] 0 AND 0xFFFFFFFF) = ''352441c2''"
  by code_simp

lemma Files_insert_file_and_event:
  "Files (insert_file_and_event file_o event_o s fname filepath ct mt dt cs u r etype etime) =
     (if file_o = Committed then
        Files s @ [\<lparr>file_id = new_rowid (map file_id (Files s)), filename = fname,
                    file_path = filepath, creation_time = ct, modification_time = mt,
                    deletion_time = dt, hash_value = cs, user = u, role = r\<rparr>]
      else Files s)"
  by (cases file_o; cases event_o)
    (simp_all add: insert_file_and_event_def insert_file_def insert_event_def Let_def)

lemma Events_insert_file_and_event:
  "Events (insert_file_and_event file_o event_o s fname filepath ct mt dt cs u r etype etime) =
     (if event_o = Committed then
        Events s @ [\<lparr>event_id = new_rowid (map event_id (Events s)), event_type = etype,
                     event_time = Some etime,
                     event_file_id = (if file_o = ExecuteFailed then lastrowid s
                                      else Some (new_rowid (map file_id (Files s))))\<rparr>]
      else Events s)"
  by (cases file_o; cases event_o)
    (simp_all add: insert_file_and_event_def insert_file_def insert_event_def Let_def)

text \<open>Executing a SELECT changes neither table, so it changes no lookup.\<close>

lemma execute_select_simps [simp]:
  "Files (execute_select s) = Files s"
  "Events (execute_select s) = Events s"
  "fetchone_by_path (execute_select s) p = fetchone_by_path s p"
  "fetchone_by_filename (execute_select s) n = fetchone_by_filename s n"
  by (simp_all add: execute_select_def fetchone_by_path_def fetchone_by_filename_def)

lemma scan_targets_one_file:
  "walk w directory = [(root, dirs, [file])] \<Longrightarrow> scan_targets w [directory] = [(root, file)]"
  by (simp add: scan_targets_def)

lemma empty_store_simps [simp]:
  "Files empty_store = []"
  "Events empty_store = []"
  "lastrowid empty_store = None"
  "last_insert_rowid empty_store = 0"
  by (simp_all add: empty_store_def)

text \<open>The example worlds and their signals, field by field.\<close>

lemma one_file_world_simps [simp]:
  "is_admin (one_file_world content mtime usr file_ok) = False"
  "getuser (one_file_world content mtime usr file_ok) = usr"
  "now (one_file_world content mtime usr file_ok) = ''2024-10-05 09:00:00''"
  "getctime (one_file_world content mtime usr file_ok) p = Inr ''2024-10-01 12:00:00''"
  "getmtime (one_file_world content mtime usr file_ok) p = Inr mtime"
  "read_file (one_file_world content mtime usr file_ok) p = Inr content"
  "walk (one_file_world content mtime usr file_ok) ''C:/watched/'' =
     [(''C:/watched/'', [], [''a.txt''])]"
  "files_insert (one_file_world content mtime usr file_ok) p =
     (if file_ok then Committed else ExecuteFailed)"
  "events_insert (one_file_world content mtime usr file_ok) p = Committed"
  "files_insert_ok (one_file_world content mtime usr file_ok) p = file_ok"
  "events_insert_ok (one_file_world content mtime usr file_ok) p = True"
  "role_of (one_file_world content mtime usr file_ok) = ''Standard User''"
  by (simp_all add: one_file_world_def role_of_def files_insert_ok_def events_insert_ok_def)

lemma one_file_world_checksums [simp]:
  "calculate_crc32_checksum (one_file_world [] mtime usr file_ok) p = Inr (Some ''00000000'')"
  "calculate_crc32_checksum (one_file_world [0x61] mtime usr file_ok) p = Inr (Some ''e8b7be43'')"
  by (simp_all add: calculate_crc32_checksum_def read_loop_Nil format_08x_zero checksum_of_a)

lemma signal_simps [simp]:
  "is_directory signal_a = False"
  "src_path signal_a = ''C:/watched/a.txt''"
  "is_directory signal_a_to_b = False"
  "src_path signal_a_to_b = ''C:/watched/a.txt''"
  "dest_path signal_a_to_b = ''C:/watched/b.txt''"
  by (simp_all add: signal_a_def signal_a_to_b_def)

lemma basename_simps [simp]:
  "basename ''C:/watched/a.txt'' = ''a.txt''"
  "basename ''C:/watched/b.txt'' = ''b.txt''"
  "basename ''C:/watched/c.txt'' = ''c.txt''"
  "path_join ''C:/watched/'' ''a.txt'' = ''C:/watched/a.txt''"
  "path_join ''C:/watched/'' ''b.txt'' = ''C:/watched/b.txt''"
  "path_join ''C:/watched/'' ''c.txt'' = ''C:/watched/c.txt''"
  by (simp_all add: basename_def path_join_def is_sep_def)

lemma three_file_world_simps [simp]:
  "is_admin three_file_world = False"
  "getuser three_file_world = ''jean''"
  "getctime three_file_world p = Inr ''2024-10-01 12:00:00''"
  "getmtime three_file_world p = Inr ''2024-10-02 12:00:00''"
  "read_file three_file_world ''C:/watched/a.txt'' = Inr []"
  "read_file three_file_world ''C:/watched/b.txt'' = Inl PermissionError"
  "read_file three_file_world ''C:/watched/c.txt'' = Inr []"
  "walk three_file_world ''C:/watched/'' =
     [(''C:/watched/'', [], [''a.txt'', ''b.txt'', ''c.txt''])]"
  "files_insert three_file_world p = Committed"
  "events_insert three_file_world p = Committed"
  "files_insert_ok three_file_world p = True"
  "events_insert_ok three_file_world p = True"
  "role_of three_file_world = ''Standard User''"
  by (simp_all add: three_file_world_def role_of_def files_insert_ok_def events_insert_ok_def)

lemma three_file_world_checksums [simp]:
  "calculate_crc32_checksum three_file_world ''C:/watched/a.txt'' = Inr (Some ''00000000'')"
  "calculate_crc32_checksum three_file_world ''C:/watched/b.txt'' = Inr None"
  "calculate_crc32_checksum three_file_world ''C:/watched/c.txt'' = Inr (Some ''00000000'')"
  by (simp_all add: calculate_crc32_checksum_def read_loop_Nil format_08x_zero)

lemma signal_c_simps [simp]:
  "is_directory signal_c = False"
  "src_path signal_c = ''C:/watched/c.txt''"
  by (simp_all add: signal_c_def)

subsection \<open>Duplicate creation signals\<close>

text \<open>
  C5. Two Created signals for the same path in one session write one FileRecord/Event
  pair. The first signal, for a path not yet in \<^verbatim>\<open>processed_files\<close>, whose fingerprint
  succeeds and whose inserts the store accepts, appends one row to Files and one to
  Events; the second signal, whatever the file system and the store look like by then,
  finds the path in \<^verbatim>\<open>processed_files\<close> and returns with the state unchanged.
\<close>

theorem second_created_signal_is_discarded:
  assumes nd: "\<not> is_directory event"
    and fresh: "src_path event \<notin> processed_files st"
    and ct: "getctime w1 (src_path event) = Inr creation_t"
    and cs: "calculate_crc32_checksum w1 (src_path event) = Inr (Some checksum)"
    and ne: "checksum \<noteq> []"
    and fok: "files_insert_ok w1 (src_path event)"
    and eok: "events_insert_ok w1 (src_path event)"
  shows "on_created w2 event (snd (on_created w1 event st)) = (None, snd (on_created w1 event st)) \<and>
         Files (db (snd (on_created w2 event (snd (on_created w1 event st))))) =
           Files (db st) @
             [\<lparr>file_id = new_rowid (map file_id (Files (db st))),
               filename = basename (src_path event), file_path = src_path event,
               creation_time = Some creation_t, modification_time = Some ''NULL'',
               deletion_time = Some ''NULL'', hash_value = Some checksum,
               user = Some (getuser w1), role = Some (role_of w1)\<rparr>] \<and>
         Events (db (snd (on_created w2 event (snd (on_created w1 event st))))) =
           Events (db st) @
             [\<lparr>event_id = new_rowid (map event_id (Events (db st))),
               event_type = ''Creation'', event_time = Some creation_t,
               event_file_id = Some (new_rowid (map file_id (Files (db st))))\<rparr>]"
proof -
  let ?st1 = "snd (on_created w1 event st)"
  have seen: "src_path event \<in> processed_files ?st1"
    using nd fresh ct cs ne by (simp add: on_created_def Let_def)
  have second: "on_created w2 event ?st1 = (None, ?st1)"
    using nd seen by (simp add: on_created_def Let_def)
  have files: "Files (db ?st1) =
           Files (db st) @
             [\<lparr>file_id = new_rowid (map file_id (Files (db st))),
               filename = basename (src_path event), file_path = src_path event,
               creation_time = Some creation_t, modification_time = Some ''NULL'',
               deletion_time = Some ''NULL'', hash_value = Some checksum,
               user = Some (getuser w1), role = Some (role_of w1)\<rparr>]"
    using nd fresh ct cs ne fok
    by (simp add: on_created_def Let_def Files_insert_file_and_event files_insert_ok_def)
  have events: "Events (db ?st1) =
           Events (db st) @
             [\<lparr>event_id = new_rowid (map event_id (Events (db st))),
               event_type = ''Creation'', event_time = Some creation_t,
               event_file_id = Some (new_rowid (map file_id (Files (db st))))\<rparr>]"
    using nd fresh ct cs ne fok eok
    by (simp add: on_created_def Let_def Events_insert_file_and_event files_insert_ok_def
        events_insert_ok_def)
  show ?thesis
    by (simp only: second snd_conv files events simp_thms)
qed

theorem second_created_signal_is_discarded_witness:
  "on_created (one_file_world [0x61] ''2024-10-03 12:00:00'' ''jean'' False) signal_a
      (snd (on_created (one_file_world [] ''2024-10-02 12:00:00'' ''jean'' True) signal_a
         (new_watcher empty_store))) =
     (None, snd (on_created (one_file_world [] ''2024-10-02 12:00:00'' ''jean'' True) signal_a
         (new_watcher empty_store))) \<and>
   length (Files (db (snd (on_created (one_file_world [0x61] ''2024-10-03 12:00:00'' ''jean'' False)
      signal_a
      (snd (on_created (one_file_world [] ''2024-10-02 12:00:00'' ''jean'' True) signal_a
         (new_watcher empty_store))))))) = 1 \<and>
   length (Events (db (snd (on_created (one_file_world [0x61] ''2024-10-03 12:00:00'' ''jean'' False)
      signal_a
      (snd (on_created (one_file_world [] ''2024-10-02 12:00:00'' ''jean'' True) signal_a
         (new_watcher empty_store))))))) = 1"
  using second_created_signal_is_discarded [of signal_a "new_watcher empty_store"
      "one_file_world [] ''2024-10-02 12:00:00'' ''jean'' True"
      "''2024-10-01 12:00:00''" "''00000000''"
      "one_file_world [0x61] ''2024-10-03 12:00:00'' ''jean'' False"]
  by (simp add: on_created_def Let_def Files_insert_file_and_event Events_insert_file_and_event
      new_watcher_def empty_store_def)

subsection \<open>The two inserts of a write\<close>

text \<open>
  C2, as the code has it. \<^verbatim>\<open>insert_file\<close> and \<^verbatim>\<open>insert_event\<close> each commit or roll
  back on their own, and no caller looks at the outcome of the first before it calls the
  second. The row of Files is committed exactly when its own insert is, the row of Events
  exactly when its own insert is, whatever became of the other. The event carries
  \<^verbatim>\<open>cursor.lastrowid\<close> as the insert into Files left it: the id given to the new row
  once the statement has executed, also when the commit then failed and the row was
  rolled back, and the value the cursor held before when \<^verbatim>\<open>cursor.execute\<close> raised.
\<close>

theorem inserts_commit_separately:
  "Files (insert_file_and_event file_outcome event_outcome s fname filepath ct mt dt cs u r
            etype etime) =
     (if file_outcome = Committed then
        Files s @ [\<lparr>file_id = new_rowid (map file_id (Files s)), filename = fname,
                    file_path = filepath, creation_time = ct, modification_time = mt,
                    deletion_time = dt, hash_value = cs, user = u, role = r\<rparr>]
      else Files s) \<and>
   Events (insert_file_and_event file_outcome event_outcome s fname filepath ct mt dt cs u r
            etype etime) =
     (if event_outcome = Committed then
        Events s @ [\<lparr>event_id = new_rowid (map event_id (Events s)), event_type = etype,
                     event_time = Some etime,
                     event_file_id = (if file_outcome = ExecuteFailed then lastrowid s
                                      else Some (new_rowid (map file_id (Files s))))\<rparr>]
      else Events s)"
  by (simp only: Files_insert_file_and_event Events_insert_file_and_event simp_thms)

text \<open>
  The claim of C2 that neither row is committed when the insert into Files fails does
  not hold: on a new store, a Created signal whose insert into Files fails leaves Files
  empty and commits the event, with a null \<^verbatim>\<open>file_id\<close>.
\<close>

theorem event_committed_without_file_counterexample:
  "Files (db (snd (on_created (one_file_world [] ''2024-10-02 12:00:00'' ''jean'' False)
       signal_a (new_watcher empty_store)))) = [] \<and>
   Events (db (snd (on_created (one_file_world [] ''2024-10-02 12:00:00'' ''jean'' False)
       signal_a (new_watcher empty_store)))) =
     [\<lparr>event_id = 1, event_type = ''Creation'', event_time = Some ''2024-10-01 12:00:00'',
       event_file_id = None\<rparr>]"
  by (simp add: on_created_def Let_def Files_insert_file_and_event Events_insert_file_and_event
      new_watcher_def empty_store_def new_rowid_def)

subsection \<open>A modification of an unknown path\<close>

text \<open>
  C3, as the code has it. \<^verbatim>\<open>on_modified\<close> writes only inside
  \<^verbatim>\<open>if (result := cursor.fetchone())\<close>, which has no else branch: a Modified signal
  for a path with no row in Files writes nothing, whether the fingerprint succeeds or
  not. Files, Events and \<^verbatim>\<open>processed_files\<close> are as they were before the signal.
\<close>

theorem modified_unknown_path_writes_nothing:
  assumes "fetchone_by_path (db st) (src_path event) = None"
  shows "Files (db (snd (on_modified w event st))) = Files (db st) \<and>
         Events (db (snd (on_modified w event st))) = Events (db st) \<and>
         processed_files (snd (on_modified w event st)) = processed_files st"
  using assms
  by (simp add: on_modified_def Let_def split: sum.splits option.splits)

theorem modified_unknown_path_writes_nothing_witness:
  "Files (db (snd (on_modified (one_file_world [] ''2024-10-02 12:00:00'' ''jean'' True) signal_a
       (new_watcher empty_store)))) = [] \<and>
   Events (db (snd (on_modified (one_file_world [] ''2024-10-02 12:00:00'' ''jean'' True) signal_a
       (new_watcher empty_store)))) = [] \<and>
   processed_files (snd (on_modified (one_file_world [] ''2024-10-02 12:00:00'' ''jean'' True)
       signal_a (new_watcher empty_store))) = {}"
  using modified_unknown_path_writes_nothing [of "new_watcher empty_store" signal_a
      "one_file_world [] ''2024-10-02 12:00:00'' ''jean'' True"]
  by (simp add: fetchone_by_path_def new_watcher_def empty_store_def)

text \<open>
  The claim of C3 that such a signal is recorded as a creation does not hold: on a new
  store the fingerprint of \<^verbatim>\<open>a.txt\<close> succeeds, no row matches, and after the handler
  both tables are still empty.
\<close>

theorem modified_unknown_path_counterexample:
  "calculate_crc32_checksum (one_file_world [] ''2024-10-02 12:00:00'' ''jean'' True)
       (src_path signal_a) = Inr (Some ''00000000'') \<and>
   fetchone_by_path empty_store (src_path signal_a) = None \<and>
   Files (db (snd (on_modified (one_file_world [] ''2024-10-02 12:00:00'' ''jean'' True) signal_a
       (new_watcher empty_store)))) = [] \<and>
   Events (db (snd (on_modified (one_file_world [] ''2024-10-02 12:00:00'' ''jean'' True) signal_a
       (new_watcher empty_store)))) = []"
  by (simp add: on_modified_def Let_def fetchone_by_path_def new_watcher_def empty_store_def)

subsection \<open>Which row a lookup returns\<close>

text \<open>Row ids grow with every insert, so the rows of a table the module has filled are
  in the order of their insertion and the highest id is the newest row.\<close>

lemma fold_max_ge_init: "a \<le> fold max ids (a::nat)"
  by (induction ids arbitrary: a) (auto intro: order_trans [OF max.cobounded2])

lemma fold_max_ge_member: "x \<in> set ids \<Longrightarrow> x \<le> fold max ids (a::nat)"
proof (induction ids arbitrary: a)
  case Nil
  then show ?case by simp
next
  case (Cons y ys)
  show ?case
  proof (cases "x = y")
    case True
    have "y \<le> max y a" by simp
    also have "\<dots> \<le> fold max ys (max y a)" by (rule fold_max_ge_init)
    finally show ?thesis using True by simp
  next
    case False
    with Cons show ?thesis by simp
  qed
qed

lemma new_rowid_greater: "x \<in> set ids \<Longrightarrow> x < new_rowid ids"
  using fold_max_ge_member [of x ids 0] by (simp add: new_rowid_def)

lemma sorted_ids_append_new:
  "sorted_wrt (<) ids \<Longrightarrow> sorted_wrt (<) (ids @ [new_rowid ids])"
  by (simp add: sorted_wrt_append new_rowid_greater)

lemma insert_file_and_event_keeps_ids_sorted:
  "sorted_wrt (<) (map file_id (Files s)) \<Longrightarrow>
   sorted_wrt (<) (map file_id (Files (insert_file_and_event file_ok event_ok s fname filepath
       ct mt dt cs u r etype etime)))"
  by (simp add: Files_insert_file_and_event sorted_ids_append_new)

lemma find_first_has_least_id:
  "sorted_wrt (<) (map f xs) \<Longrightarrow> x \<in> set xs \<Longrightarrow> P x \<Longrightarrow>
   \<exists>y. find P xs = Some y \<and> P y \<and> (f y :: nat) \<le> f x"
proof (induction xs)
  case Nil
  then show ?case by simp
next
  case (Cons z zs)
  show ?case
  proof (cases "P z")
    case True
    have "f z \<le> f x"
      using Cons.prems(1,2) by (auto intro: less_imp_le)
    with True show ?thesis by simp
  next
    case False
    with Cons.prems have "x \<in> set zs" by auto
    with Cons False show ?thesis by simp
  qed
qed

lemma Files_two_versions:
  "Files (db two_versions) =
     [\<lparr>file_id = 1, filename = ''a.txt'', file_path = ''C:/watched/a.txt'',
       creation_time = Some ''2024-10-01 12:00:00'',
       modification_time = Some ''2024-10-02 12:00:00'',
       deletion_time = Some ''NULL'', hash_value = Some ''00000000'',
       user = Some ''jean'', role = Some ''Standard User''\<rparr>,
      \<lparr>file_id = 2, filename = ''a.txt'', file_path = ''C:/watched/a.txt'',
       creation_time = Some ''2024-10-01 12:00:00'',
       modification_time = Some ''2024-10-03 12:00:00'',
       deletion_time = Some ''NULL'', hash_value = Some ''e8b7be43'',
       user = Some ''jean'', role = Some ''Standard User''\<rparr>]"
  by (simp add: two_versions_def scan_directory_def scan_targets_one_file on_modified_def Let_def
      fetchone_by_path_def Files_insert_file_and_event new_watcher_def empty_store_def
      new_rowid_def split: prod.splits)

text \<open>
  C1, as the code has it. The handlers look the reference row up with
  \<^verbatim>\<open>SELECT * FROM Files WHERE file_path = ?\<close> (modify, delete) or
  \<^verbatim>\<open>WHERE filename = ?\<close> (rename) and take \<^verbatim>\<open>fetchone()\<close>; no statement orders its
  result. Among the rows that match the key, the row taken is the first one inserted:
  its \<^verbatim>\<open>file_id\<close> is the lowest, no higher than that of any other matching row.
\<close>

theorem lookup_selects_lowest_file_id:
  assumes "sorted_wrt (<) (map file_id (Files s))" and "r' \<in> set (Files s)"
  shows "(file_path r' = p \<longrightarrow>
           (\<exists>r. fetchone_by_path s p = Some r \<and> file_path r = p \<and> file_id r \<le> file_id r')) \<and>
         (filename r' = n \<longrightarrow>
           (\<exists>r. fetchone_by_filename s n = Some r \<and> filename r = n \<and> file_id r \<le> file_id r'))"
  using find_first_has_least_id [OF assms, of "\<lambda>r. file_path r = p"]
        find_first_has_least_id [OF assms, of "\<lambda>r. filename r = n"]
  by (simp add: fetchone_by_path_def fetchone_by_filename_def)

theorem lookup_selects_lowest_file_id_witness:
  "map_option file_id (fetchone_by_path (db two_versions) ''C:/watched/a.txt'') = Some 1 \<and>
   map_option file_id (fetchone_by_filename (db two_versions) ''a.txt'') = Some 1"
  using lookup_selects_lowest_file_id [of "db two_versions" "last (Files (db two_versions))"
      "''C:/watched/a.txt''" "''a.txt''"]
  by (simp add: Files_two_versions fetchone_by_path_def fetchone_by_filename_def)

text \<open>
  The claim of C1 that the matching row with the highest \<^verbatim>\<open>file_id\<close> is taken does not
  hold: with rows 1 and 2 stored for \<^verbatim>\<open>a.txt\<close>, both lookups return row 1, and the
  row a Deleted signal then writes carries the modification time of row 1, not of row 2.
\<close>

theorem lookup_most_recent_counterexample:
  "map file_id (filter (\<lambda>r. file_path r = ''C:/watched/a.txt'') (Files (db two_versions))) = [1, 2] \<and>
   map_option file_id (fetchone_by_path (db two_versions) ''C:/watched/a.txt'') = Some 1 \<and>
   map file_id (filter (\<lambda>r. filename r = ''a.txt'') (Files (db two_versions))) = [1, 2] \<and>
   map_option file_id (fetchone_by_filename (db two_versions) ''a.txt'') = Some 1 \<and>
   map modification_time (Files (db two_versions)) =
     [Some ''2024-10-02 12:00:00'', Some ''2024-10-03 12:00:00''] \<and>
   modification_time (last (Files (db (snd (on_deleted
       (one_file_world [0x61] ''2024-10-03 12:00:00'' ''jean'' True) signal_a two_versions))))) =
     Some ''2024-10-02 12:00:00''"
  by (simp add: Files_two_versions fetchone_by_path_def fetchone_by_filename_def
      on_deleted_def Let_def Files_insert_file_and_event)

subsection \<open>Renames\<close>

lemma Files_scanned_by_alice:
  "Files scanned_by_alice =
     [\<lparr>file_id = 1, filename = ''a.txt'', file_path = ''C:/watched/a.txt'',
       creation_time = Some ''2024-10-01 12:00:00'',
       modification_time = Some ''2024-10-02 12:00:00'',
       deletion_time = Some ''NULL'', hash_value = Some ''00000000'',
       user = Some ''alice'', role = Some ''Standard User''\<rparr>]"
  by (simp add: scanned_by_alice_def scan_directory_def scan_targets_one_file Let_def
      Files_insert_file_and_event empty_store_def new_rowid_def split: prod.splits)

text \<open>
  C4, as the code has it. \<^verbatim>\<open>on_moved\<close> computes the fingerprint at the destination
  only to decide whether to go on. The row it writes for the destination takes
  \<^verbatim>\<open>hash_value\<close>, \<^verbatim>\<open>user\<close> and \<^verbatim>\<open>role\<close> (and the creation time) unchanged from
  the row its lookup returned, which is the first-inserted row whose \<^verbatim>\<open>filename\<close> is
  the basename of the source path; the fresh fingerprint is not stored.
\<close>

theorem rename_carries_matched_record_forward:
  assumes nd: "\<not> is_directory event"
    and cs: "calculate_crc32_checksum w (dest_path event) = Inr (Some checksum)"
    and ne: "checksum \<noteq> []"
    and mt: "getmtime w (dest_path event) = Inr modified_t"
    and look: "fetchone_by_filename (db st) (basename (src_path event)) = Some result"
    and fok: "files_insert_ok w (dest_path event)"
  shows "Files (db (snd (on_moved w event st))) =
           Files (db st) @
             [\<lparr>file_id = new_rowid (map file_id (Files (db st))),
               filename = basename (dest_path event), file_path = dest_path event,
               creation_time = creation_time result, modification_time = Some modified_t,
               deletion_time = Some ''NULL'', hash_value = hash_value result,
               user = user result, role = role result\<rparr>]"
  using assms
  by (simp add: on_moved_def Let_def Files_insert_file_and_event files_insert_ok_def)

theorem rename_carries_matched_record_forward_witness:
  "map hash_value (Files (db (snd (on_moved
       (one_file_world [0x61] ''2024-10-03 12:00:00'' ''root'' True) signal_a_to_b
       (new_watcher scanned_by_alice))))) = [Some ''00000000'', Some ''00000000''] \<and>
   map user (Files (db (snd (on_moved
       (one_file_world [0x61] ''2024-10-03 12:00:00'' ''root'' True) signal_a_to_b
       (new_watcher scanned_by_alice))))) = [Some ''alice'', Some ''alice'']"
  using rename_carries_matched_record_forward [of signal_a_to_b
      "one_file_world [0x61] ''2024-10-03 12:00:00'' ''root'' True" "''e8b7be43''"
      "''2024-10-03 12:00:00''" "new_watcher scanned_by_alice"
      "hd (Files scanned_by_alice)"]
  by (simp add: Files_scanned_by_alice fetchone_by_filename_def new_watcher_def)

text \<open>
  The claim of C4 speaks of the hash of the current FileRecord, the matching row with
  the highest id. That does not hold: \<^verbatim>\<open>a.txt\<close> has rows 1 and 2, the newer one and
  the file at the destination both with the hash \<^verbatim>\<open>e8b7be43\<close>, and the row written for
  \<^verbatim>\<open>b.txt\<close> has the hash \<^verbatim>\<open>00000000\<close> of row 1.
\<close>

theorem rename_current_hash_counterexample:
  "map file_id (filter (\<lambda>r. file_path r = ''C:/watched/a.txt'') (Files (db two_versions))) = [1, 2] \<and>
   hash_value (last (Files (db two_versions))) = Some ''e8b7be43'' \<and>
   calculate_crc32_checksum (one_file_world [0x61] ''2024-10-03 12:00:00'' ''jean'' True)
       (dest_path signal_a_to_b) = Inr (Some ''e8b7be43'') \<and>
   file_path (last (Files (db (snd (on_moved
       (one_file_world [0x61] ''2024-10-03 12:00:00'' ''jean'' True) signal_a_to_b
       two_versions))))) = ''C:/watched/b.txt'' \<and>
   hash_value (last (Files (db (snd (on_moved
       (one_file_world [0x61] ''2024-10-03 12:00:00'' ''jean'' True) signal_a_to_b
       two_versions))))) = Some ''00000000''"
  by (simp add: Files_two_versions fetchone_by_filename_def
      on_moved_def Let_def Files_insert_file_and_event)

subsection \<open>Deletions\<close>

text \<open>
  C6, as the code has it. For a Deleted signal whose path has a row in Files,
  \<^verbatim>\<open>on_deleted\<close> writes a row with the creation time, modification time, hash and role
  of the row its lookup returned and with that row's path (the lookup key). The
  file name is the basename of that path, the user is the one running the monitor
  (\<^verbatim>\<open>getpass.getuser()\<close>), not the stored one, and the deletion time is the
  current time.
\<close>

theorem deletion_row_fields:
  assumes nd: "\<not> is_directory event"
    and look: "fetchone_by_path (db st) (src_path event) = Some result"
    and fok: "files_insert_ok w (src_path event)"
  shows "Files (db (snd (on_deleted w event st))) =
           Files (db st) @
             [\<lparr>file_id = new_rowid (map file_id (Files (db st))),
               filename = basename (file_path result), file_path = file_path result,
               creation_time = creation_time result,
               modification_time = modification_time result,
               deletion_time = Some (now w), hash_value = hash_value result,
               user = Some (getuser w), role = role result\<rparr>]"
proof -
  have "file_path result = src_path event"
    using look by (auto simp: fetchone_by_path_def find_Some_iff)
  with assms show ?thesis
    by (simp add: on_deleted_def Let_def Files_insert_file_and_event files_insert_ok_def)
qed

theorem deletion_row_fields_witness:
  "Files (db (snd (on_deleted (one_file_world [] ''2024-10-02 12:00:00'' ''jean'' True)
       signal_a (new_watcher scanned_by_alice)))) =
     [\<lparr>file_id = 1, filename = ''a.txt'', file_path = ''C:/watched/a.txt'',
       creation_time = Some ''2024-10-01 12:00:00'',
       modification_time = Some ''2024-10-02 12:00:00'',
       deletion_time = Some ''NULL'', hash_value = Some ''00000000'',
       user = Some ''alice'', role = Some ''Standard User''\<rparr>,
      \<lparr>file_id = 2, filename = ''a.txt'', file_path = ''C:/watched/a.txt'',
       creation_time = Some ''2024-10-01 12:00:00'',
       modification_time = Some ''2024-10-02 12:00:00'',
       deletion_time = Some ''2024-10-05 09:00:00'', hash_value = Some ''00000000'',
       user = Some ''jean'', role = Some ''Standard User''\<rparr>]"
  using deletion_row_fields [of signal_a "new_watcher scanned_by_alice"
      "hd (Files scanned_by_alice)" "one_file_world [] ''2024-10-02 12:00:00'' ''jean'' True"]
  by (simp add: Files_scanned_by_alice fetchone_by_path_def new_watcher_def new_rowid_def)

text \<open>
  The claim of C6 that the observed user is carried forward does not hold: the row found
  for \<^verbatim>\<open>a.txt\<close> was written when \<^verbatim>\<open>alice\<close> ran the scan, and the deletion row written
  while \<^verbatim>\<open>jean\<close> runs the monitor names \<^verbatim>\<open>jean\<close>.
\<close>

theorem deletion_user_counterexample:
  "map_option user (fetchone_by_path scanned_by_alice (src_path signal_a)) = Some (Some ''alice'') \<and>
   user (last (Files (db (snd (on_deleted (one_file_world [] ''2024-10-02 12:00:00'' ''jean'' True)
       signal_a (new_watcher scanned_by_alice)))))) = Some ''jean''"
  by (simp add: Files_scanned_by_alice on_deleted_def Let_def Files_insert_file_and_event
      fetchone_by_path_def new_watcher_def)

subsection \<open>Baseline scan\<close>

text \<open>One pass of the loop body either ends the scan (an exception), goes on with the
  state unchanged (no fingerprint), or writes and goes on.\<close>

lemma scan_files_step:
  assumes "getctime w (path_join root fname) = Inr ct"
    and "getmtime w (path_join root fname) = Inr mt"
    and "calculate_crc32_checksum w (path_join root fname) = Inr cs"
    and "truthy cs"
  shows "scan_files w ((root, fname) # rest) (s, ds) =
     scan_files w rest
       (insert_file_and_event (files_insert w (path_join root fname))
          (events_insert w (path_join root fname)) s
          fname (path_join root fname) (Some ct) (Some mt) (Some ''NULL'') cs
          (Some (getuser w)) (Some (role_of w)) ''Scanned in directory'' ct,
        ds @ [PyDict [(''filename'', PyStr fname),
                      (''file_path'', PyStr (path_join root fname)),
                      (''creation_time'', PyStr ct),
                      (''last_modified_time'', PyStr mt),
                      (''checksum'', py_str_opt cs)]])"
  using assms by (simp add: Let_def)

lemma scan_files_step_committed:
  assumes "getctime w (path_join root fname) = Inr ct"
    and "getmtime w (path_join root fname) = Inr mt"
    and "calculate_crc32_checksum w (path_join root fname) = Inr cs"
    and "truthy cs"
    and "files_insert w (path_join root fname) = Committed"
    and "events_insert w (path_join root fname) = Committed"
  shows "\<exists>s1.
     scan_files w ((root, fname) # rest) (s, ds) =
       scan_files w rest
         (s1, ds @ [PyDict [(''filename'', PyStr fname),
                            (''file_path'', PyStr (path_join root fname)),
                            (''creation_time'', PyStr ct),
                            (''last_modified_time'', PyStr mt),
                            (''checksum'', py_str_opt cs)]]) \<and>
     Files s1 =
       Files s @ [\<lparr>file_id = new_rowid (map file_id (Files s)), filename = fname,
                   file_path = path_join root fname, creation_time = Some ct,
                   modification_time = Some mt, deletion_time = Some ''NULL'',
                   hash_value = cs, user = Some (getuser w), role = Some (role_of w)\<rparr>] \<and>
     Events s1 =
       Events s @ [\<lparr>event_id = new_rowid (map event_id (Events s)),
                    event_type = ''Scanned in directory'', event_time = Some ct,
                    event_file_id = Some (new_rowid (map file_id (Files s)))\<rparr>]"
proof -
  let ?s1 = "insert_file_and_event (files_insert w (path_join root fname))
          (events_insert w (path_join root fname)) s
          fname (path_join root fname) (Some ct) (Some mt) (Some ''NULL'') cs
          (Some (getuser w)) (Some (role_of w)) ''Scanned in directory'' ct"
  have "scan_files w ((root, fname) # rest) (s, ds) =
       scan_files w rest
         (?s1, ds @ [PyDict [(''filename'', PyStr fname),
                            (''file_path'', PyStr (path_join root fname)),
                            (''creation_time'', PyStr ct),
                            (''last_modified_time'', PyStr mt),
                            (''checksum'', py_str_opt cs)]])"
    by (rule scan_files_step [OF assms(1-4)])
  moreover have "Files ?s1 =
       Files s @ [\<lparr>file_id = new_rowid (map file_id (Files s)), filename = fname,
                   file_path = path_join root fname, creation_time = Some ct,
                   modification_time = Some mt, deletion_time = Some ''NULL'',
                   hash_value = cs, user = Some (getuser w), role = Some (role_of w)\<rparr>]"
    by (simp add: Files_insert_file_and_event assms(5))
  moreover have "Events ?s1 =
       Events s @ [\<lparr>event_id = new_rowid (map event_id (Events s)),
                    event_type = ''Scanned in directory'', event_time = Some ct,
                    event_file_id = Some (new_rowid (map file_id (Files s)))\<rparr>]"
    by (simp add: Events_insert_file_and_event assms(5,6))
  ultimately show ?thesis by blast
qed

lemma scan_files_no_raise:
  assumes "\<not> isl (getctime w (path_join root fname))"
    and "\<not> isl (getmtime w (path_join root fname))"
    and "\<not> isl (calculate_crc32_checksum w (path_join root fname))"
  shows "scan_files w ((root, fname) # rest) (s, ds) =
         scan_files w rest (scan_files w [(root, fname)] (s, ds))"
  using assms by (auto simp: Let_def split: sum.splits)

lemma scan_files_append:
  "list_all (\<lambda>(root, file). \<not> isl (getctime w (path_join root file)) \<and>
       \<not> isl (getmtime w (path_join root file)) \<and>
       \<not> isl (calculate_crc32_checksum w (path_join root file))) before \<Longrightarrow>
   scan_files w (before @ rest) acc = scan_files w rest (scan_files w before acc)"
proof (induction before arbitrary: acc)
  case Nil
  then show ?case by simp
next
  case (Cons t before)
  obtain root fname where t: "t = (root, fname)" by (cases t)
  obtain s ds where acc: "acc = (s, ds)" by (cases acc)
  from Cons.prems have ok: "\<not> isl (getctime w (path_join root fname))"
      "\<not> isl (getmtime w (path_join root fname))"
      "\<not> isl (calculate_crc32_checksum w (path_join root fname))"
    and rest: "list_all (\<lambda>(root, file). \<not> isl (getctime w (path_join root file)) \<and>
       \<not> isl (getmtime w (path_join root file)) \<and>
       \<not> isl (calculate_crc32_checksum w (path_join root file))) before"
    by (simp_all add: t)
  have first: "scan_files w ((root, fname) # before @ rest) (s, ds) =
      scan_files w (before @ rest) (scan_files w [(root, fname)] (s, ds))"
    by (rule scan_files_no_raise [OF ok])
  have second: "scan_files w ((root, fname) # before) (s, ds) =
      scan_files w before (scan_files w [(root, fname)] (s, ds))"
    by (rule scan_files_no_raise [OF ok])
  have "scan_files w ((t # before) @ rest) acc =
        scan_files w (before @ rest) (scan_files w [t] acc)"
    unfolding t acc append_Cons by (rule first)
  also have "\<dots> = scan_files w rest (scan_files w before (scan_files w [t] acc))"
    by (rule Cons.IH [OF rest])
  also have "scan_files w before (scan_files w [t] acc) = scan_files w (t # before) acc"
    unfolding t acc by (rule second [symmetric])
  finally show ?case .
qed

lemma scan_files_Cons_cases:
  assumes "scan_files w ((root, fname) # ts) (s, ds) = (s', ds')"
  shows "(s' = s \<and> ds' = ds) \<or> scan_files w ts (s, ds) = (s', ds') \<or>
    (\<exists>ct mt cs.
       getctime w (path_join root fname) = Inr ct \<and>
       getmtime w (path_join root fname) = Inr mt \<and>
       calculate_crc32_checksum w (path_join root fname) = Inr cs \<and> truthy cs \<and>
       scan_files w ts
         (insert_file_and_event (files_insert w (path_join root fname))
            (events_insert w (path_join root fname)) s
            fname (path_join root fname) (Some ct) (Some mt) (Some ''NULL'') cs
            (Some (getuser w)) (Some (role_of w)) ''Scanned in directory'' ct,
          ds @ [PyDict [(''filename'', PyStr fname),
                        (''file_path'', PyStr (path_join root fname)),
                        (''creation_time'', PyStr ct),
                        (''last_modified_time'', PyStr mt),
                        (''checksum'', py_str_opt cs)]]) = (s', ds'))"
  using assms by (auto simp: Let_def split: sum.splits if_splits)

lemma scan_files_grows:
  "scan_files w ts (s, ds) = (s', ds') \<Longrightarrow>
   \<exists>new newe. Files s' = Files s @ new \<and> Events s' = Events s @ newe"
proof (induction ts arbitrary: s ds)
  case Nil
  then show ?case by simp
next
  case (Cons t ts)
  obtain root fname where t: "t = (root, fname)" by (cases t)
  from Cons.prems [unfolded t, THEN scan_files_Cons_cases] show ?case
  proof (elim disjE exE conjE)
    assume "s' = s" "ds' = ds"
    then show ?thesis by simp
  next
    assume "scan_files w ts (s, ds) = (s', ds')"
    then show ?thesis by (rule Cons.IH)
  next
    fix ct mt cs
    let ?s1 = "insert_file_and_event (files_insert w (path_join root fname))
            (events_insert w (path_join root fname)) s
            fname (path_join root fname) (Some ct) (Some mt) (Some ''NULL'') cs
            (Some (getuser w)) (Some (role_of w)) ''Scanned in directory'' ct"
    assume "scan_files w ts (?s1,
          ds @ [PyDict [(''filename'', PyStr fname),
                        (''file_path'', PyStr (path_join root fname)),
                        (''creation_time'', PyStr ct),
                        (''last_modified_time'', PyStr mt),
                        (''checksum'', py_str_opt cs)]]) = (s', ds')"
    from Cons.IH [OF this] obtain new newe where
      "Files s' = Files ?s1 @ new" "Events s' = Events ?s1 @ newe"
      by blast
    then show ?thesis
      by (cases "files_insert w (path_join root fname) = Committed";
          cases "events_insert w (path_join root fname) = Committed")
        (simp_all add: Files_insert_file_and_event Events_insert_file_and_event)
  qed
qed

text \<open>The list returned: one dictionary for every file the loop reaches and fingerprints.\<close>

lemma scan_files_returns:
  "scan_files w ts (s, ds) = (s', ds') \<Longrightarrow>
   \<exists>newd. ds' = ds @ newd \<and>
     list_all2
       (\<lambda>d (root, file).
          \<exists>ct mt cs.
            getctime w (path_join root file) = Inr ct \<and>
            getmtime w (path_join root file) = Inr mt \<and>
            calculate_crc32_checksum w (path_join root file) = Inr cs \<and>
            d = PyDict [(''filename'', PyStr file),
                        (''file_path'', PyStr (path_join root file)),
                        (''creation_time'', PyStr ct),
                        (''last_modified_time'', PyStr mt),
                        (''checksum'', py_str_opt cs)])
       newd
       (filter (\<lambda>(root, file).
                  case calculate_crc32_checksum w (path_join root file) of
                    Inl e \<Rightarrow> False | Inr cs \<Rightarrow> truthy cs)
          (takeWhile (\<lambda>(root, file).
                        \<not> isl (getctime w (path_join root file)) \<and>
                        \<not> isl (getmtime w (path_join root file)) \<and>
                        \<not> isl (calculate_crc32_checksum w (path_join root file))) ts))"
proof (induction ts arbitrary: s ds)
  case Nil
  then show ?case by simp
next
  case (Cons t ts)
  define R where "R = (\<lambda>d (root, file).
          \<exists>ct mt cs.
            getctime w (path_join root file) = Inr ct \<and>
            getmtime w (path_join root file) = Inr mt \<and>
            calculate_crc32_checksum w (path_join root file) = Inr cs \<and>
            d = PyDict [(''filename'', PyStr file),
                        (''file_path'', PyStr (path_join root file)),
                        (''creation_time'', PyStr ct),
                        (''last_modified_time'', PyStr mt),
                        (''checksum'', py_str_opt cs)])"
  define F where "F = (\<lambda>(root, file).
                  case calculate_crc32_checksum w (path_join root file) of
                    Inl e \<Rightarrow> False | Inr cs \<Rightarrow> truthy cs)"
  define V where "V = (\<lambda>(root, file).
                        \<not> isl (getctime w (path_join root file)) \<and>
                        \<not> isl (getmtime w (path_join root file)) \<and>
                        \<not> isl (calculate_crc32_checksum w (path_join root file)))"
  have IH: "\<exists>newd. ds' = ds1 @ newd \<and> list_all2 R newd (filter F (takeWhile V ts))"
    if "scan_files w ts (s1, ds1) = (s', ds')" for s1 ds1
    using Cons.IH [OF that] unfolding R_def F_def V_def .
  obtain root fname where t: "t = (root, fname)" by (cases t)
  have Vt: "V t = (\<not> isl (getctime w (path_join root fname)) \<and>
      \<not> isl (getmtime w (path_join root fname)) \<and>
      \<not> isl (calculate_crc32_checksum w (path_join root fname)))"
    by (simp add: V_def t)
  have "\<exists>newd. ds' = ds @ newd \<and> list_all2 R newd (filter F (takeWhile V (t # ts)))"
  proof (cases "V t")
    case False
    then have "scan_files w (t # ts) (s, ds) = (s, ds)"
      unfolding Vt by (auto simp: t Let_def split: sum.splits)
    with Cons.prems have "ds' = ds" by simp
    moreover have "filter F (takeWhile V (t # ts)) = []"
      using False by simp
    ultimately show ?thesis by simp
  next
    case True
    then obtain ct mt cs where obs: "getctime w (path_join root fname) = Inr ct"
        "getmtime w (path_join root fname) = Inr mt"
        "calculate_crc32_checksum w (path_join root fname) = Inr cs"
      unfolding Vt
      by (cases "getctime w (path_join root fname)"; cases "getmtime w (path_join root fname)";
          cases "calculate_crc32_checksum w (path_join root fname)") auto
    have Ft: "F t = truthy cs"
      by (simp add: F_def t obs)
    show ?thesis
    proof (cases "truthy cs")
      case False
      with obs have "scan_files w (t # ts) (s, ds) = scan_files w ts (s, ds)"
        by (simp add: t Let_def)
      with Cons.prems have "scan_files w ts (s, ds) = (s', ds')" by simp
      from IH [OF this] obtain newd where
        newd: "ds' = ds @ newd" "list_all2 R newd (filter F (takeWhile V ts))"
        by blast
      have "filter F (takeWhile V (t # ts)) = filter F (takeWhile V ts)"
        using True False Ft by simp
      with newd show ?thesis by auto
    next
      case cs: True
      define d where "d = PyDict [(''filename'', PyStr fname),
                        (''file_path'', PyStr (path_join root fname)),
                        (''creation_time'', PyStr ct),
                        (''last_modified_time'', PyStr mt),
                        (''checksum'', py_str_opt cs)]"
      from Cons.prems obtain s1 where "scan_files w ts (s1, ds @ [d]) = (s', ds')"
        unfolding t d_def scan_files_step [OF obs cs] by blast
      from IH [OF this] obtain newd where
        newd: "ds' = (ds @ [d]) @ newd" "list_all2 R newd (filter F (takeWhile V ts))"
        by blast
      have Rd: "R d t"
        using obs by (simp add: R_def t d_def)
      have "filter F (takeWhile V (t # ts)) = t # filter F (takeWhile V ts)"
        using True cs Ft by simp
      moreover have "list_all2 R (d # newd) (t # filter F (takeWhile V ts))"
        using Rd newd(2) by (rule list.rel_intros(2))
      moreover have "ds' = ds @ (d # newd)"
        using newd(1) by simp
      ultimately show ?thesis by auto
    qed
  qed
  then show ?case unfolding R_def F_def V_def .
qed

lemma scan_files_deletion_time:
  "scan_files w ts (s, ds) = (s', ds') \<Longrightarrow>
   \<exists>new. Files s' = Files s @ new \<and> (\<forall>r\<in>set new. deletion_time r = Some ''NULL'')"
proof (induction ts arbitrary: s ds)
  case Nil
  then show ?case by simp
next
  case (Cons t ts)
  obtain root fname where t: "t = (root, fname)" by (cases t)
  from Cons.prems [unfolded t, THEN scan_files_Cons_cases] show ?case
  proof (elim disjE exE conjE)
    assume "s' = s" "ds' = ds"
    then show ?thesis by simp
  next
    assume "scan_files w ts (s, ds) = (s', ds')"
    then show ?thesis by (rule Cons.IH)
  next
    fix ct mt cs
    assume "scan_files w ts
         (insert_file_and_event (files_insert w (path_join root fname))
            (events_insert w (path_join root fname)) s
            fname (path_join root fname) (Some ct) (Some mt) (Some ''NULL'') cs
            (Some (getuser w)) (Some (role_of w)) ''Scanned in directory'' ct,
          ds @ [PyDict [(''filename'', PyStr fname),
                        (''file_path'', PyStr (path_join root fname)),
                        (''creation_time'', PyStr ct),
                        (''last_modified_time'', PyStr mt),
                        (''checksum'', py_str_opt cs)]]) = (s', ds')"
    from Cons.IH [OF this] obtain new where
      "Files s' = Files (insert_file_and_event (files_insert w (path_join root fname))
            (events_insert w (path_join root fname)) s
            fname (path_join root fname) (Some ct) (Some mt) (Some ''NULL'') cs
            (Some (getuser w)) (Some (role_of w)) ''Scanned in directory'' ct) @ new"
      "\<forall>r\<in>set new. deletion_time r = Some ''NULL''"
      by blast
    then show ?thesis
      by (cases "files_insert w (path_join root fname) = Committed")
        (simp_all add: Files_insert_file_and_event)
  qed
qed

lemma scan_files_details:
  assumes fok: "\<And>p. files_insert_ok w p"
  shows "scan_files w ts (s, ds) = (s', ds') \<Longrightarrow>
   \<exists>new newd. Files s' = Files s @ new \<and> ds' = ds @ newd \<and>
     list_all2 (\<lambda>d r. d = PyDict [(''filename'', PyStr (filename r)),
                                 (''file_path'', PyStr (file_path r)),
                                 (''creation_time'', py_str_opt (creation_time r)),
                                 (''last_modified_time'', py_str_opt (modification_time r)),
                                 (''checksum'', py_str_opt (hash_value r))]) newd new"
proof (induction ts arbitrary: s ds)
  case Nil
  then show ?case by simp
next
  case (Cons t ts)
  let ?R = "\<lambda>d r. d = PyDict [(''filename'', PyStr (filename r)),
                                 (''file_path'', PyStr (file_path r)),
                                 (''creation_time'', py_str_opt (creation_time r)),
                                 (''last_modified_time'', py_str_opt (modification_time r)),
                                 (''checksum'', py_str_opt (hash_value r))]"
  obtain root fname where t: "t = (root, fname)" by (cases t)
  from Cons.prems [unfolded t, THEN scan_files_Cons_cases] show ?case
  proof (elim disjE exE conjE)
    assume "s' = s" "ds' = ds"
    then show ?thesis by simp
  next
    assume "scan_files w ts (s, ds) = (s', ds')"
    then show ?thesis by (rule Cons.IH)
  next
    fix ct mt cs
    let ?s1 = "insert_file_and_event (files_insert w (path_join root fname))
            (events_insert w (path_join root fname)) s
            fname (path_join root fname) (Some ct) (Some mt) (Some ''NULL'') cs
            (Some (getuser w)) (Some (role_of w)) ''Scanned in directory'' ct"
    let ?d = "PyDict [(''filename'', PyStr fname),
                        (''file_path'', PyStr (path_join root fname)),
                        (''creation_time'', PyStr ct),
                        (''last_modified_time'', PyStr mt),
                        (''checksum'', py_str_opt cs)]"
    let ?r = "\<lparr>file_id = new_rowid (map file_id (Files s)), filename = fname,
               file_path = path_join root fname, creation_time = Some ct,
               modification_time = Some mt, deletion_time = Some ''NULL'', hash_value = cs,
               user = Some (getuser w), role = Some (role_of w)\<rparr>"
    assume "scan_files w ts (?s1, ds @ [?d]) = (s', ds')"
    from Cons.IH [OF this] obtain new newd where
      "Files s' = Files ?s1 @ new" "ds' = (ds @ [?d]) @ newd" "list_all2 ?R newd new"
      by blast
    then have "Files s' = Files s @ (?r # new) \<and> ds' = ds @ (?d # newd) \<and>
        list_all2 ?R (?d # newd) (?r # new)"
      by (simp add: Files_insert_file_and_event fok [unfolded files_insert_ok_def])
    then show ?thesis by blast
  qed
qed

lemma scan_files_pairs:
  assumes fok: "\<And>p. files_insert_ok w p" and eok: "\<And>p. events_insert_ok w p"
  shows "scan_files w ts (s, ds) = (s', ds') \<Longrightarrow>
   \<exists>new newe. Files s' = Files s @ new \<and> Events s' = Events s @ newe \<and>
     list_all2 (\<lambda>r e. deletion_time r = Some ''NULL'' \<and>
                      event_type e = ''Scanned in directory'' \<and>
                      event_file_id e = Some (file_id r) \<and>
                      (\<exists>ct. getctime w (file_path r) = Inr ct \<and> creation_time r = Some ct \<and>
                            event_time e = Some ct)) new newe"
proof (induction ts arbitrary: s ds)
  case Nil
  then show ?case by simp
next
  case (Cons t ts)
  let ?R = "\<lambda>r e. deletion_time r = Some ''NULL'' \<and>
                      event_type e = ''Scanned in directory'' \<and>
                      event_file_id e = Some (file_id r) \<and>
                      (\<exists>ct. getctime w (file_path r) = Inr ct \<and> creation_time r = Some ct \<and>
                            event_time e = Some ct)"
  obtain root fname where t: "t = (root, fname)" by (cases t)
  from Cons.prems [unfolded t, THEN scan_files_Cons_cases] show ?case
  proof (elim disjE exE conjE)
    assume "s' = s" "ds' = ds"
    then show ?thesis by simp
  next
    assume "scan_files w ts (s, ds) = (s', ds')"
    then show ?thesis by (rule Cons.IH)
  next
    fix ct mt cs
    let ?s1 = "insert_file_and_event (files_insert w (path_join root fname))
            (events_insert w (path_join root fname)) s
            fname (path_join root fname) (Some ct) (Some mt) (Some ''NULL'') cs
            (Some (getuser w)) (Some (role_of w)) ''Scanned in directory'' ct"
    let ?d = "PyDict [(''filename'', PyStr fname),
                        (''file_path'', PyStr (path_join root fname)),
                        (''creation_time'', PyStr ct),
                        (''last_modified_time'', PyStr mt),
                        (''checksum'', py_str_opt cs)]"
    let ?r = "\<lparr>file_id = new_rowid (map file_id (Files s)), filename = fname,
               file_path = path_join root fname, creation_time = Some ct,
               modification_time = Some mt, deletion_time = Some ''NULL'', hash_value = cs,
               user = Some (getuser w), role = Some (role_of w)\<rparr>"
    let ?e = "\<lparr>event_id = new_rowid (map event_id (Events s)),
               event_type = ''Scanned in directory'', event_time = Some ct,
               event_file_id = Some (new_rowid (map file_id (Files s)))\<rparr>"
    assume ct: "getctime w (path_join root fname) = Inr ct"
    assume "scan_files w ts (?s1, ds @ [?d]) = (s', ds')"
    from Cons.IH [OF this] obtain new newe where
      "Files s' = Files ?s1 @ new" "Events s' = Events ?s1 @ newe" "list_all2 ?R new newe"
      by blast
    with ct have "Files s' = Files s @ (?r # new) \<and> Events s' = Events s @ (?e # newe) \<and>
        list_all2 ?R (?r # new) (?e # newe)"
      by (simp add: Files_insert_file_and_event Events_insert_file_and_event
          fok [unfolded files_insert_ok_def] eok [unfolded events_insert_ok_def])
    then show ?thesis by blast
  qed
qed

lemma scan_one_file_world:
  "scan_directory (one_file_world [] mtime usr True) empty_store [''C:/watched/''] =
     (PyList [PyDict [(''filename'', PyStr ''a.txt''),
                      (''file_path'', PyStr ''C:/watched/a.txt''),
                      (''creation_time'', PyStr ''2024-10-01 12:00:00''),
                      (''last_modified_time'', PyStr mtime),
                      (''checksum'', PyStr ''00000000'')]],
      \<lparr>Files = [\<lparr>file_id = 1, filename = ''a.txt'', file_path = ''C:/watched/a.txt'',
                  creation_time = Some ''2024-10-01 12:00:00'',
                  modification_time = Some mtime,
                  deletion_time = Some ''NULL'', hash_value = Some ''00000000'',
                  user = Some usr, role = Some ''Standard User''\<rparr>],
        Events = [\<lparr>event_id = 1, event_type = ''Scanned in directory'',
                   event_time = Some ''2024-10-01 12:00:00'', event_file_id = Some 1\<rparr>],
        lastrowid = Some 1, last_insert_rowid = 1\<rparr>)"
  by (simp add: scan_directory_def scan_targets_one_file Let_def insert_file_and_event_def
      insert_file_def insert_event_def empty_store_def new_rowid_def)

lemma scan_three_file_world:
  "scan_directory three_file_world empty_store [''C:/watched/''] =
     (PyList [PyDict [(''filename'', PyStr ''a.txt''),
                      (''file_path'', PyStr ''C:/watched/a.txt''),
                      (''creation_time'', PyStr ''2024-10-01 12:00:00''),
                      (''last_modified_time'', PyStr ''2024-10-02 12:00:00''),
                      (''checksum'', PyStr ''00000000'')],
              PyDict [(''filename'', PyStr ''c.txt''),
                      (''file_path'', PyStr ''C:/watched/c.txt''),
                      (''creation_time'', PyStr ''2024-10-01 12:00:00''),
                      (''last_modified_time'', PyStr ''2024-10-02 12:00:00''),
                      (''checksum'', PyStr ''00000000'')]],
      \<lparr>Files = [\<lparr>file_id = 1, filename = ''a.txt'', file_path = ''C:/watched/a.txt'',
                  creation_time = Some ''2024-10-01 12:00:00'',
                  modification_time = Some ''2024-10-02 12:00:00'',
                  deletion_time = Some ''NULL'', hash_value = Some ''00000000'',
                  user = Some ''jean'', role = Some ''Standard User''\<rparr>,
                 \<lparr>file_id = 2, filename = ''c.txt'', file_path = ''C:/watched/c.txt'',
                  creation_time = Some ''2024-10-01 12:00:00'',
                  modification_time = Some ''2024-10-02 12:00:00'',
                  deletion_time = Some ''NULL'', hash_value = Some ''00000000'',
                  user = Some ''jean'', role = Some ''Standard User''\<rparr>],
        Events = [\<lparr>event_id = 1, event_type = ''Scanned in directory'',
                   event_time = Some ''2024-10-01 12:00:00'', event_file_id = Some 1\<rparr>,
                  \<lparr>event_id = 2, event_type = ''Scanned in directory'',
                   event_time = Some ''2024-10-01 12:00:00'', event_file_id = Some 2\<rparr>],
        lastrowid = Some 2, last_insert_rowid = 2\<rparr>)"
  by (simp add: scan_directory_def scan_targets_def Let_def insert_file_and_event_def
      insert_file_def insert_event_def empty_store_def new_rowid_def)

text \<open>
  C8, as the code has it. Every row the baseline scan adds to Files has
  \<^verbatim>\<open>deletion_time\<close> equal to the four-character text \<^verbatim>\<open>NULL\<close>, which the scanner
  passes as a bound parameter: a string, not the null of the database. When the store
  accepts the inserts, the rows and the events added pair up one to one: the event has
  the type \<^verbatim>\<open>Scanned in directory\<close>, refers to the row's id, and its time is the
  creation time read for the file, which is also the row's creation time; the time of
  the scan is not used.
\<close>

theorem scanned_rows_and_events:
  "(\<exists>new. Files (snd (scan_directory w s directories)) = Files s @ new \<and>
      (\<forall>r\<in>set new. deletion_time r = Some ''NULL'')) \<and>
   ((\<forall>p. files_insert_ok w p \<and> events_insert_ok w p) \<longrightarrow>
      (\<exists>new newe.
         Files (snd (scan_directory w s directories)) = Files s @ new \<and>
         Events (snd (scan_directory w s directories)) = Events s @ newe \<and>
         list_all2 (\<lambda>r e. deletion_time r = Some ''NULL'' \<and>
                      event_type e = ''Scanned in directory'' \<and>
                      event_file_id e = Some (file_id r) \<and>
                      (\<exists>ct. getctime w (file_path r) = Inr ct \<and> creation_time r = Some ct \<and>
                            event_time e = Some ct)) new newe))"
proof -
  obtain s' ds' where run: "scan_files w (scan_targets w directories) (s, []) = (s', ds')"
    by (cases "scan_files w (scan_targets w directories) (s, [])")
  then have res: "snd (scan_directory w s directories) = s'"
    by (simp add: scan_directory_def)
  show ?thesis
    unfolding res
    using scan_files_deletion_time [OF run] scan_files_pairs [OF _ _ run]
    by blast
qed

theorem scanned_rows_and_events_witness:
  "map deletion_time (Files (snd (scan_directory
       (one_file_world [] ''2024-10-02 12:00:00'' ''jean'' True) empty_store
       [''C:/watched/'']))) = [Some ''NULL''] \<and>
   map event_time (Events (snd (scan_directory
       (one_file_world [] ''2024-10-02 12:00:00'' ''jean'' True) empty_store
       [''C:/watched/'']))) = [Some ''2024-10-01 12:00:00'']"
  using scanned_rows_and_events [of "one_file_world [] ''2024-10-02 12:00:00'' ''jean'' True"
      empty_store "[''C:/watched/'']"]
  by (simp add: scan_one_file_world)

text \<open>
  The claim of C8 that the row's \<^verbatim>\<open>deletion_time\<close> is null does not hold: the row
  written for \<^verbatim>\<open>a.txt\<close> has the text \<^verbatim>\<open>NULL\<close> in that column.
\<close>

theorem scanned_deletion_time_counterexample:
  "map deletion_time (Files (snd (scan_directory
       (one_file_world [] ''2024-10-02 12:00:00'' ''jean'' True) empty_store
       [''C:/watched/'']))) = [Some ''NULL''] \<and>
   deletion_time (hd (Files (snd (scan_directory
       (one_file_world [] ''2024-10-02 12:00:00'' ''jean'' True) empty_store
       [''C:/watched/''])))) \<noteq> None"
  by (simp add: scan_one_file_world)

text \<open>
  C9, as the code has it. \<^verbatim>\<open>scan_directory\<close> returns the list \<^verbatim>\<open>file_details\<close>, not a
  number. The scan reaches the files of the walk up to the first one for which reading
  the creation time, the modification time or the content raises an exception that is
  not caught inside the loop. The list holds, in the order of the walk, one dictionary
  for each file reached whose fingerprint is a non-empty string, with the name, the
  path, the two times and the fingerprint of that file. When the store accepts the
  inserts into Files, the dictionaries describe, one by one, the rows the scan added, so
  the length of the list is the number of files recorded.
\<close>

theorem scan_directory_returns_file_details:
  "(\<exists>file_details.
      fst (scan_directory w s directories) = PyList file_details \<and>
      list_all2
        (\<lambda>d (root, file).
           \<exists>ct mt cs.
             getctime w (path_join root file) = Inr ct \<and>
             getmtime w (path_join root file) = Inr mt \<and>
             calculate_crc32_checksum w (path_join root file) = Inr cs \<and>
             d = PyDict [(''filename'', PyStr file),
                         (''file_path'', PyStr (path_join root file)),
                         (''creation_time'', PyStr ct),
                         (''last_modified_time'', PyStr mt),
                         (''checksum'', py_str_opt cs)])
        file_details
        (filter (\<lambda>(root, file).
                   case calculate_crc32_checksum w (path_join root file) of
                     Inl e \<Rightarrow> False | Inr cs \<Rightarrow> truthy cs)
           (takeWhile (\<lambda>(root, file).
                         \<not> isl (getctime w (path_join root file)) \<and>
                         \<not> isl (getmtime w (path_join root file)) \<and>
                         \<not> isl (calculate_crc32_checksum w (path_join root file)))
              (scan_targets w directories)))) \<and>
   \<not> is_number (fst (scan_directory w s directories)) \<and>
   ((\<forall>p. files_insert_ok w p) \<longrightarrow>
      (\<exists>file_details new.
         fst (scan_directory w s directories) = PyList file_details \<and>
         Files (snd (scan_directory w s directories)) = Files s @ new \<and>
         list_all2 (\<lambda>d r. d = PyDict [(''filename'', PyStr (filename r)),
                                 (''file_path'', PyStr (file_path r)),
                                 (''creation_time'', py_str_opt (creation_time r)),
                                 (''last_modified_time'', py_str_opt (modification_time r)),
                                 (''checksum'', py_str_opt (hash_value r))])
           file_details new))"
proof -
  obtain s' ds' where run: "scan_files w (scan_targets w directories) (s, []) = (s', ds')"
    by (cases "scan_files w (scan_targets w directories) (s, [])")
  then have res: "scan_directory w s directories = (PyList ds', s')"
    by (simp add: scan_directory_def)
  show ?thesis
    unfolding res
    using scan_files_details [OF _ run] scan_files_returns [OF run]
    by auto
qed

theorem scan_directory_returns_file_details_witness:
  "fst (scan_directory three_file_world empty_store [''C:/watched/'']) =
     PyList [PyDict [(''filename'', PyStr ''a.txt''),
                      (''file_path'', PyStr ''C:/watched/a.txt''),
                      (''creation_time'', PyStr ''2024-10-01 12:00:00''),
                      (''last_modified_time'', PyStr ''2024-10-02 12:00:00''),
                      (''checksum'', PyStr ''00000000'')],
              PyDict [(''filename'', PyStr ''c.txt''),
                      (''file_path'', PyStr ''C:/watched/c.txt''),
                      (''creation_time'', PyStr ''2024-10-01 12:00:00''),
                      (''last_modified_time'', PyStr ''2024-10-02 12:00:00''),
                      (''checksum'', PyStr ''00000000'')]] \<and>
   py_len (fst (scan_directory three_file_world empty_store [''C:/watched/''])) = Some 2 \<and>
   map file_path (Files (snd (scan_directory three_file_world empty_store [''C:/watched/'']))) =
     [''C:/watched/a.txt'', ''C:/watched/c.txt'']"
  using scan_directory_returns_file_details
      [of three_file_world empty_store "[''C:/watched/'']"]
  by (simp add: scan_three_file_world)

text \<open>
  The claim of C9 that the scanner returns a count does not hold: for the directory with
  the one file \<^verbatim>\<open>a.txt\<close> the value returned is a list of one dictionary.
\<close>

theorem scan_directory_count_counterexample:
  "fst (scan_directory (one_file_world [] ''2024-10-02 12:00:00'' ''jean'' True)
       empty_store [''C:/watched/'']) =
     PyList [PyDict [(''filename'', PyStr ''a.txt''),
                     (''file_path'', PyStr ''C:/watched/a.txt''),
                     (''creation_time'', PyStr ''2024-10-01 12:00:00''),
                     (''last_modified_time'', PyStr ''2024-10-02 12:00:00''),
                     (''checksum'', PyStr ''00000000'')]] \<and>
   \<not> is_number (fst (scan_directory (one_file_world [] ''2024-10-02 12:00:00'' ''jean'' True)
       empty_store [''C:/watched/'']))"
  by (simp add: scan_one_file_world)

subsection \<open>Empty files\<close>

text \<open>
  C10. A readable file of zero bytes has the fingerprint \<^verbatim>\<open>00000000\<close>: the loop of
  \<^verbatim>\<open>calculate_crc32_checksum\<close> reads no chunk and the initial checksum 0 is
  formatted. The string is not empty, so it passes \<^verbatim>\<open>if checksum:\<close>. In the scanner,
  the pass of the loop for such a file, wherever it stands in the walk and whatever the
  store holds, appends the file's dictionary and, when the store accepts both inserts,
  the file's row with that hash and the event paired with it; a scan that reaches the
  file therefore ends with both in the tables. The creation handler writes the row, with
  that hash, and its event in the same way.
\<close>

theorem empty_file_is_recorded:
  assumes rd: "read_file w filepath = Inr []"
    and ct: "getctime w filepath = Inr creation_t"
    and mt: "getmtime w filepath = Inr modified_t"
    and pj: "path_join root fname = filepath"
    and ev: "\<not> is_directory event" "src_path event = filepath"
            "filepath \<notin> processed_files st"
    and fok: "files_insert_ok w filepath"
    and eok: "events_insert_ok w filepath"
  shows "calculate_crc32_checksum w filepath = Inr (Some ''00000000'') \<and>
         truthy (Some ''00000000'') \<and>
         (\<exists>s1.
            scan_files w ((root, fname) # rest) (s, file_details) =
              scan_files w rest
                (s1, file_details @
                       [PyDict [(''filename'', PyStr fname),
                                (''file_path'', PyStr filepath),
                                (''creation_time'', PyStr creation_t),
                                (''last_modified_time'', PyStr modified_t),
                                (''checksum'', PyStr ''00000000'')]]) \<and>
            Files s1 =
              Files s @ [\<lparr>file_id = new_rowid (map file_id (Files s)), filename = fname,
                          file_path = filepath, creation_time = Some creation_t,
                          modification_time = Some modified_t, deletion_time = Some ''NULL'',
                          hash_value = Some ''00000000'', user = Some (getuser w),
                          role = Some (role_of w)\<rparr>] \<and>
            Events s1 =
              Events s @ [\<lparr>event_id = new_rowid (map event_id (Events s)),
                           event_type = ''Scanned in directory'',
                           event_time = Some creation_t,
                           event_file_id = Some (new_rowid (map file_id (Files s)))\<rparr>]) \<and>
         (scan_targets w directories = before @ (root, fname) # after \<and>
          list_all (\<lambda>(root, file). \<not> isl (getctime w (path_join root file)) \<and>
                      \<not> isl (getmtime w (path_join root file)) \<and>
                      \<not> isl (calculate_crc32_checksum w (path_join root file))) before \<longrightarrow>
            (\<exists>r\<in>set (Files (snd (scan_directory w s0 directories))).
             \<exists>e\<in>set (Events (snd (scan_directory w s0 directories))).
               filename r = fname \<and> file_path r = filepath \<and>
               creation_time r = Some creation_t \<and> modification_time r = Some modified_t \<and>
               deletion_time r = Some ''NULL'' \<and> hash_value r = Some ''00000000'' \<and>
               event_type e = ''Scanned in directory'' \<and> event_time e = Some creation_t \<and>
               event_file_id e = Some (file_id r))) \<and>
         Files (db (snd (on_created w event st))) =
           Files (db st) @ [\<lparr>file_id = new_rowid (map file_id (Files (db st))),
                       filename = basename filepath,
                       file_path = filepath, creation_time = Some creation_t,
                       modification_time = Some ''NULL'', deletion_time = Some ''NULL'',
                       hash_value = Some ''00000000'', user = Some (getuser w),
                       role = Some (role_of w)\<rparr>] \<and>
         Events (db (snd (on_created w event st))) =
           Events (db st) @ [\<lparr>event_id = new_rowid (map event_id (Events (db st))),
                       event_type = ''Creation'', event_time = Some creation_t,
                       event_file_id = Some (new_rowid (map file_id (Files (db st))))\<rparr>]"
proof -
  have c: "calculate_crc32_checksum w filepath = Inr (Some ''00000000'')"
    using rd by (rule checksum_of_empty)
  have fc: "files_insert w filepath = Committed" and ec: "events_insert w filepath = Committed"
    using fok eok by (simp_all add: files_insert_ok_def events_insert_ok_def)
  have step: "\<exists>s1.
            scan_files w ((root, fname) # rest) (s, file_details) =
              scan_files w rest
                (s1, file_details @
                       [PyDict [(''filename'', PyStr fname),
                                (''file_path'', PyStr filepath),
                                (''creation_time'', PyStr creation_t),
                                (''last_modified_time'', PyStr modified_t),
                                (''checksum'', PyStr ''00000000'')]]) \<and>
            Files s1 =
              Files s @ [\<lparr>file_id = new_rowid (map file_id (Files s)), filename = fname,
                          file_path = filepath, creation_time = Some creation_t,
                          modification_time = Some modified_t, deletion_time = Some ''NULL'',
                          hash_value = Some ''00000000'', user = Some (getuser w),
                          role = Some (role_of w)\<rparr>] \<and>
            Events s1 =
              Events s @ [\<lparr>event_id = new_rowid (map event_id (Events s)),
                           event_type = ''Scanned in directory'',
                           event_time = Some creation_t,
                           event_file_id = Some (new_rowid (map file_id (Files s)))\<rparr>]"
    for rest s file_details
    using scan_files_step_committed [of w root fname creation_t modified_t "Some ''00000000''"
        rest s file_details] ct mt c fc ec
    by (simp add: pj)
  have whole: "\<exists>r\<in>set (Files (snd (scan_directory w s0 directories))).
             \<exists>e\<in>set (Events (snd (scan_directory w s0 directories))).
               filename r = fname \<and> file_path r = filepath \<and>
               creation_time r = Some creation_t \<and> modification_time r = Some modified_t \<and>
               deletion_time r = Some ''NULL'' \<and> hash_value r = Some ''00000000'' \<and>
               event_type e = ''Scanned in directory'' \<and> event_time e = Some creation_t \<and>
               event_file_id e = Some (file_id r)"
    if tg: "scan_targets w directories = before @ (root, fname) # after"
      and reach: "list_all (\<lambda>(root, file). \<not> isl (getctime w (path_join root file)) \<and>
                      \<not> isl (getmtime w (path_join root file)) \<and>
                      \<not> isl (calculate_crc32_checksum w (path_join root file))) before"
  proof -
    obtain sb db where b: "scan_files w before (s0, []) = (sb, db)"
      by (cases "scan_files w before (s0, [])")
    have "scan_files w (scan_targets w directories) (s0, []) =
          scan_files w ((root, fname) # after) (sb, db)"
      unfolding tg scan_files_append [OF reach] b ..
    moreover from step [of after sb db] obtain s1 d where
      s1: "scan_files w ((root, fname) # after) (sb, db) = scan_files w after (s1, db @ [d])"
      and f1: "Files s1 =
              Files sb @ [\<lparr>file_id = new_rowid (map file_id (Files sb)), filename = fname,
                          file_path = filepath, creation_time = Some creation_t,
                          modification_time = Some modified_t, deletion_time = Some ''NULL'',
                          hash_value = Some ''00000000'', user = Some (getuser w),
                          role = Some (role_of w)\<rparr>]"
      and e1: "Events s1 =
              Events sb @ [\<lparr>event_id = new_rowid (map event_id (Events sb)),
                           event_type = ''Scanned in directory'',
                           event_time = Some creation_t,
                           event_file_id = Some (new_rowid (map file_id (Files sb)))\<rparr>]"
      by blast
    moreover obtain s' ds' where fin: "scan_files w after (s1, db @ [d]) = (s', ds')"
      by (cases "scan_files w after (s1, db @ [d])")
    ultimately have res: "snd (scan_directory w s0 directories) = s'"
      by (simp add: scan_directory_def)
    from scan_files_grows [OF fin] obtain new newe where
      "Files s' = Files s1 @ new" "Events s' = Events s1 @ newe"
      by blast
    with f1 e1 show ?thesis
      unfolding res by simp
  qed
  have created_files: "Files (db (snd (on_created w event st))) =
           Files (db st) @ [\<lparr>file_id = new_rowid (map file_id (Files (db st))),
                       filename = basename filepath,
                       file_path = filepath, creation_time = Some creation_t,
                       modification_time = Some ''NULL'', deletion_time = Some ''NULL'',
                       hash_value = Some ''00000000'', user = Some (getuser w),
                       role = Some (role_of w)\<rparr>]"
    using ev ct fc
    by (simp add: on_created_def c Files_insert_file_and_event)
  have created_events: "Events (db (snd (on_created w event st))) =
           Events (db st) @ [\<lparr>event_id = new_rowid (map event_id (Events (db st))),
                       event_type = ''Creation'', event_time = Some creation_t,
                       event_file_id = Some (new_rowid (map file_id (Files (db st))))\<rparr>]"
    using ev ct fc ec
    by (simp add: on_created_def c Events_insert_file_and_event)
  from c step whole created_files created_events show ?thesis
    by (simp only: truthy.simps simp_thms) blast
qed

theorem empty_file_is_recorded_witness:
  "calculate_crc32_checksum three_file_world ''C:/watched/c.txt'' = Inr (Some ''00000000'') \<and>
   map file_path (Files (snd (scan_directory three_file_world empty_store [''C:/watched/'']))) =
     [''C:/watched/a.txt'', ''C:/watched/c.txt''] \<and>
   map hash_value (Files (snd (scan_directory three_file_world empty_store [''C:/watched/'']))) =
     [Some ''00000000'', Some ''00000000''] \<and>
   map event_file_id (Events (snd (scan_directory three_file_world empty_store
     [''C:/watched/'']))) = [Some 1, Some 2] \<and>
   map hash_value (Files (db (snd (on_created three_file_world signal_c
     (new_watcher empty_store))))) = [Some ''00000000''] \<and>
   map event_type (Events (db (snd (on_created three_file_world signal_c
     (new_watcher empty_store))))) = [''Creation'']"
  using empty_file_is_recorded [of three_file_world "''C:/watched/c.txt''"
      "''2024-10-01 12:00:00''" "''2024-10-02 12:00:00''" "''C:/watched/''" "''c.txt''"
      signal_c "new_watcher empty_store" "[]" empty_store "[]" "[''C:/watched/'']"
      "[(''C:/watched/'', ''a.txt''), (''C:/watched/'', ''b.txt'')]" "[]" empty_store]
  by (simp add: scan_three_file_world new_watcher_def scan_targets_def new_rowid_def
      on_created_def Let_def Files_insert_file_and_event Events_insert_file_and_event)

subsection \<open>Start-up order\<close>

lemma schedule_all_keeps_store:
  "m' \<in> set (schedule_all m ds) \<Longrightarrow>
   mon_store m' = mon_store m \<and> mon_running m' = mon_running m"
proof (induction ds arbitrary: m)
  case Nil
  then show ?case by simp
next
  case (Cons d ds)
  let ?m1 = "m\<lparr>mon_watches := mon_watches m @ [d]\<rparr>"
  from Cons.prems have "m' = ?m1 \<or> m' \<in> set (schedule_all ?m1 ds)"
    by (simp add: Let_def)
  then show ?case
  proof
    assume "m' = ?m1"
    then show ?thesis by simp
  next
    assume "m' \<in> set (schedule_all ?m1 ds)"
    from Cons.IH [OF this] show ?thesis by simp
  qed
qed

lemma last_schedule_all:
  "last (m # schedule_all m ds) = m\<lparr>mon_watches := mon_watches m @ ds\<rparr>"
  by (induction ds arbitrary: m) (auto simp: Let_def)

text \<open>
  C7, as the code has it. \<^verbatim>\<open>monitor_directories\<close> calls \<^verbatim>\<open>scan_directory\<close> first
  and creates, schedules and starts the observer only after that call has returned:
  the first state after the scan has the complete scan in the store, no directory
  scheduled and no observer running; every later state has the same store; the observer
  runs only in the last state, with every directory scheduled.
\<close>

theorem scan_completes_before_watching:
  "hd (monitor_directories w s directories) =
     \<lparr>mon_store = snd (scan_directory w s directories), mon_watches = [],
      mon_running = False\<rparr> \<and>
   (\<forall>m\<in>set (monitor_directories w s directories).
      mon_store m = snd (scan_directory w s directories)) \<and>
   (\<forall>m\<in>set (butlast (monitor_directories w s directories)). \<not> mon_running m) \<and>
   last (monitor_directories w s directories) =
     \<lparr>mon_store = snd (scan_directory w s directories), mon_watches = directories,
      mon_running = True\<rparr>"
proof -
  let ?m0 = "\<lparr>mon_store = snd (scan_directory w s directories), mon_watches = [],
      mon_running = False\<rparr>"
  have trace: "monitor_directories w s directories =
      ?m0 # schedule_all ?m0 directories @
        [(last (?m0 # schedule_all ?m0 directories))\<lparr>mon_running := True\<rparr>]"
    by (simp add: monitor_directories_def Let_def)
  have sched: "\<forall>m\<in>set (schedule_all ?m0 directories).
      mon_store m = snd (scan_directory w s directories) \<and> \<not> mon_running m"
    using schedule_all_keeps_store [of _ ?m0 directories] by auto
  have lst: "last (?m0 # schedule_all ?m0 directories) = ?m0\<lparr>mon_watches := directories\<rparr>"
    using last_schedule_all [of ?m0 directories] by simp
  have bl: "butlast (monitor_directories w s directories) = ?m0 # schedule_all ?m0 directories"
    by (simp add: trace butlast_append)
  show ?thesis
    unfolding bl
    unfolding trace lst
    using sched by auto
qed

theorem scan_completes_before_watching_witness:
  "map mon_watches (monitor_directories (one_file_world [] ''2024-10-02 12:00:00'' ''jean'' True)
       empty_store [''C:/watched/'']) = [[], [''C:/watched/''], [''C:/watched/'']] \<and>
   map mon_running (monitor_directories (one_file_world [] ''2024-10-02 12:00:00'' ''jean'' True)
       empty_store [''C:/watched/'']) = [False, False, True] \<and>
   map (\<lambda>m. length (Files (mon_store m)))
     (monitor_directories (one_file_world [] ''2024-10-02 12:00:00'' ''jean'' True)
       empty_store [''C:/watched/'']) = [1, 1, 1]"
  using scan_completes_before_watching
      [of "one_file_world [] ''2024-10-02 12:00:00'' ''jean'' True" empty_store "[''C:/watched/'']"]
  by (simp add: monitor_directories_def Let_def scan_one_file_world)

text \<open>
  The claim of C7 that the scan never runs to completion while the watcher is unarmed
  does not hold: when the scan of \<^verbatim>\<open>C:/watched/\<close> has recorded \<^verbatim>\<open>a.txt\<close> and
  returned, no directory is scheduled and the observer is not running.
\<close>

theorem watcher_unarmed_after_scan_counterexample:
  "hd (monitor_directories (one_file_world [] ''2024-10-02 12:00:00'' ''jean'' True)
       empty_store [''C:/watched/'']) =
     \<lparr>mon_store = snd (scan_directory (one_file_world [] ''2024-10-02 12:00:00'' ''jean'' True)
         empty_store [''C:/watched/'']),
      mon_watches = [], mon_running = False\<rparr> \<and>
   map file_path (Files (snd (scan_directory
       (one_file_world [] ''2024-10-02 12:00:00'' ''jean'' True)
       empty_store [''C:/watched/'']))) = [''C:/watched/a.txt'']"
  by (simp add: monitor_directories_def Let_def scan_one_file_world)

end
